theory Spec2Isabelle
  imports Complex_Main "HOL-Library.AList" "HOL-Library.Multiset"
begin

section \<open>Python values\<close>

text \<open>
  A Python string is kept as a \<^typ>\<open>string\<close> holding its UTF-8 bytes, so a character
  outside ASCII takes several bytes; \<open>utf8_chars\<close> below gives the characters back.
  \<open>replace\<close> and \<open>startswith\<close> are Python's on any text; \<open>title\<close> is Python's on ASCII
  text (a domain name is ASCII). Provider payloads are what \<open>json.load\<close> and
  \<open>response.json()\<close> return: a \<open>JObj\<close> is a Python dict, kept as an association list
  in insertion order whose lookups read the first binding of a key. A number is a
  rational: the code only compares numbers and tests them against zero, and on finite
  floats both agree with the rationals.
\<close>

datatype json =
    JNull
  | JBool bool
  | JNum rat
  | JStr string
  | JArr "json list"
  | JObj "(string \<times> json) list"

text \<open>The exception classes the code raises, catches or lets through. \<open>IOError\<close> stands
  for \<open>OSError\<close> and its subclasses. The message is kept where the source builds it or
  hands it on (\<open>str(e)\<close>); for an error raised by the interpreter or by a library it is
  left empty.\<close>

datatype exc_class =
    ValueError | AttributeError | TypeError | JSONDecodeError | IOError
  | UnicodeDecodeError | UnicodeEncodeError | HTTPError | RequestException
  | FileNotFoundError
  | CalledProcessError | ValidationError | OtherError

datatype py_error = PyErr exc_class string

fun exc_class_of :: "py_error \<Rightarrow> exc_class" where
  "exc_class_of (PyErr c m) = c"

fun str_of_error :: "py_error \<Rightarrow> string" where
  "str_of_error (PyErr c m) = m"

text \<open>\<open>bool(v)\<close>: what \<open>if v\<close>, \<open>v and ...\<close> and \<open>v or ...\<close> test.\<close>

fun truthy :: "json \<Rightarrow> bool" where
  "truthy JNull = False"
| "truthy (JBool b) = b"
| "truthy (JNum n) = (n \<noteq> 0)"
| "truthy (JStr s) = (s \<noteq> [])"
| "truthy (JArr xs) = (xs \<noteq> [])"
| "truthy (JObj kvs) = (kvs \<noteq> [])"

text \<open>\<open>d.get(k, default)\<close>: only a dict has \<open>get\<close>.\<close>

fun py_get :: "json \<Rightarrow> string \<Rightarrow> json \<Rightarrow> py_error + json" where
  "py_get (JObj kvs) k dflt = Inr (case map_of kvs k of None \<Rightarrow> dflt | Some v \<Rightarrow> v)"
| "py_get _ k dflt = Inl (PyErr AttributeError [])"

subsection \<open>String methods\<close>

definition startswith :: "string \<Rightarrow> string \<Rightarrow> bool" where
  "startswith s p = (take (length p) s = p)"

text \<open>\<open>s.replace(old, new)\<close>: every non-overlapping occurrence, left to right.\<close>

function str_replace :: "string \<Rightarrow> string \<Rightarrow> string \<Rightarrow> string" where
  "str_replace old new [] = (if old = [] then new else [])"
| "str_replace old new (c # cs) =
     (if old = [] then new @ c # str_replace old new cs
      else if startswith (c # cs) old
        then new @ str_replace old new (drop (length old) (c # cs))
      else c # str_replace old new cs)"
  by pat_completeness auto
termination
  by (relation "measure (\<lambda>(old, new, s). length s)") auto

definition is_upper :: "char \<Rightarrow> bool" where
  "is_upper c = (65 \<le> (of_char c :: nat) \<and> (of_char c :: nat) \<le> 90)"

definition is_lower :: "char \<Rightarrow> bool" where
  "is_lower c = (97 \<le> (of_char c :: nat) \<and> (of_char c :: nat) \<le> 122)"

definition is_digit :: "char \<Rightarrow> bool" where
  "is_digit c = (48 \<le> (of_char c :: nat) \<and> (of_char c :: nat) \<le> 57)"

definition is_cased :: "char \<Rightarrow> bool" where
  "is_cased c = (is_upper c \<or> is_lower c)"

definition to_upper :: "char \<Rightarrow> char" where
  "to_upper c = (if is_lower c then char_of ((of_char c :: nat) - 32) else c)"

definition to_lower :: "char \<Rightarrow> char" where
  "to_lower c = (if is_upper c then char_of ((of_char c :: nat) + 32) else c)"

text \<open>\<open>s.title()\<close>: a letter that follows a letter is lowered, any other letter is raised.\<close>

fun title_from :: "bool \<Rightarrow> string \<Rightarrow> string" where
  "title_from previous_is_cased [] = []"
| "title_from previous_is_cased (c # cs) =
     (if previous_is_cased then to_lower c else to_upper c) # title_from (is_cased c) cs"

definition str_title :: "string \<Rightarrow> string" where
  "str_title s = title_from False s"

text \<open>The characters of a string: in UTF-8 a byte from \<open>0x80\<close> to \<open>0xBF\<close> continues the
  character that the byte before it began.\<close>

definition is_continuation :: "char \<Rightarrow> bool" where
  "is_continuation c = (128 \<le> (of_char c :: nat) \<and> (of_char c :: nat) < 192)"

function utf8_chars :: "string \<Rightarrow> string list" where
  "utf8_chars [] = []"
| "utf8_chars (c # cs) =
     (c # takeWhile is_continuation cs) # utf8_chars (dropWhile is_continuation cs)"
  by pat_completeness auto
termination
  by (relation "measure length") (auto simp: length_dropWhile_le less_Suc_eq_le)

text \<open>\<open>s.encode("latin-1")\<close> succeeds when every character is below U+0100: in UTF-8, when
  no byte is 196 or above.\<close>

definition latin1_encodable :: "string \<Rightarrow> bool" where
  "latin1_encodable s = (\<forall>c \<in> set s. (of_char c :: nat) < 196)"

section \<open>The world outside the process\<close>

text \<open>
  Files, HTTP services and the environment are explicit. A file of the cache directory is
  what opening it and \<open>json.load\<close> give: the parsed value, or the exception raised.
  Each remote service is a function from the request to its outcome.
\<close>

type_synonym filesystem = "string \<rightharpoonup> (py_error + json)"

record http_response =
  status_code :: nat
  json_body :: "py_error + json"

text \<open>\<open>TavilySearchResult\<close> of \<open>search_engines/tavily_search.py\<close>.\<close>

record TavilySearchResult =
  url :: string
  title :: string
  score :: rat
  published_date :: "string option"
  content :: "string option"

text \<open>The prompt of \<open>generate_llm_company_report\<close> is a fixed text with four interpolated
  values; the record holds the values: \<open>self.company_name\<close>,
  \<open>json.dumps(coresignal_data, indent=2)\<close>, \<open>json.dumps(apollo_data, indent=2)\<close> and
  \<open>[c.model_dump() for c in customers]\<close>.\<close>

record llm_prompt =
  prompt_company_name :: json
  prompt_coresignal_data :: json
  prompt_apollo_data :: json
  prompt_customers :: "TavilySearchResult list"

text \<open>One \<open>### News Item\<close> block of the text \<open>news\<close>, as the values it interpolates.\<close>

record news_item =
  item_number :: nat
  item_date :: json
  item_summary :: json
  item_ellipsis :: bool
  item_reactions :: "json option"
  item_comments :: "json option"

text \<open>The prompt of \<open>generate_markdown_report_with_llm\<close>, likewise: \<open>self.website\<close>,
  \<open>self.load_company_schema()\<close>, \<open>news\<close>, \<open>competitors\<close>, \<open>all_company_updates\<close> and
  \<open>json.dumps(api_response, indent=2)\<close>.\<close>

record coresignal_prompt =
  cp_website :: string
  cp_schema :: string
  cp_news :: "news_item list option"
  cp_competitors :: "json list"
  cp_all_company_updates :: "json list"
  cp_api_response :: json

text \<open>
  \<^item> \<open>getenv_*\<close>: \<open>os.getenv\<close> of the credential.
  \<^item> \<open>module_dir\<close>: \<open>os.path.dirname(__file__)\<close> of the modules of \<open>third_party_api\<close>.
  \<^item> \<open>apollo_get d\<close>, \<open>coresignal_get site\<close>: \<open>requests.get\<close> on the enrichment URL of
    the domain or website; \<open>Inl\<close> when \<open>requests\<close> raises.
  \<^item> \<open>writable p\<close>: whether opening \<open>p\<close> for writing and dumping JSON into it succeed.
  \<^item> \<open>tavily_search q\<close>: \<open>AsyncTavilyClient(...).search(q, max_results=5,
    search_depth="advanced")\<close>, its \<open>results\<close> validated as \<open>TavilySearchResult\<close>.
  \<^item> \<open>llm_ainvoke p\<close>: \<open>str((await self.llm.ainvoke([SystemMessage(p)])).content)\<close>.
  \<^item> \<open>llm_invoke p\<close>: \<open>str(model.invoke([SystemMessage(p)]).content)\<close> of the CoreSignal
    report.
  \<^item> \<open>company_schema\<close>: what \<open>load_company_schema()\<close> returns or raises.
  \<^item> \<open>format_value v\<close>: \<open>str(v)\<close> of a value that is not a string.
  \<^item> \<open>unicode_isalnum c\<close>: \<open>c.isalnum()\<close> of one character outside ASCII.
  \<^item> \<open>list_sort_reverse keys xs\<close>: what \<open>xs.sort(key=..., reverse=True)\<close> leaves or raises
    when the keys, given in the order of \<open>xs\<close>, are not all numbers.
\<close>

record world =
  getenv_APOLLO_API_KEY :: "string option"
  getenv_CORESIGNAL_API_KEY :: "string option"
  module_dir :: string
  apollo_get :: "string \<Rightarrow> py_error + http_response"
  coresignal_get :: "string \<Rightarrow> py_error + http_response"
  writable :: "string \<Rightarrow> bool"
  tavily_search :: "string \<Rightarrow> py_error + TavilySearchResult list"
  llm_ainvoke :: "llm_prompt \<Rightarrow> py_error + string"
  llm_invoke :: "coresignal_prompt \<Rightarrow> py_error + string"
  company_schema :: "py_error + string"
  format_value :: "json \<Rightarrow> string"
  unicode_isalnum :: "string \<Rightarrow> bool"
  list_sort_reverse :: "json list \<Rightarrow> json list \<Rightarrow> py_error + json list"

text \<open>The calls that leave the process, in the order they are recorded.\<close>

datatype net_call =
    ApolloRequest string
  | CoreSignalRequest string
  | TavilySearch string

text \<open>\<open>os.path.join\<close> of two components.\<close>

definition path_join :: "string \<Rightarrow> string \<Rightarrow> string" where
  "path_join a b =
     (if startswith b ''/'' then b
      else if a = [] \<or> last a = CHR ''/'' then a @ b
      else a @ ''/'' @ b)"

definition results_dir :: "world \<Rightarrow> string" where
  "results_dir w = path_join (module_dir w) ''../results/third_party_api_response''"

text \<open>The clause \<open>except (json.JSONDecodeError, IOError)\<close> around the cache read.\<close>

definition cache_read_caught :: "py_error \<Rightarrow> bool" where
  "cache_read_caught e =
     (exc_class_of e = JSONDecodeError \<or> exc_class_of e = IOError
      \<or> exc_class_of e = FileNotFoundError)"

section \<open>Provider clients\<close>

subsection \<open>\<open>third_party_api/apollo_organization_api.py\<close>\<close>

record ApolloOrganizationAPI =
  apollo_domain :: string

definition ApolloOrganizationAPI_init :: "world \<Rightarrow> string \<Rightarrow> py_error + ApolloOrganizationAPI" where
  "ApolloOrganizationAPI_init w d =
     (case getenv_APOLLO_API_KEY w of
        None \<Rightarrow> Inl (PyErr ValueError ''APOLLO_API_KEY not set in environment variables.'')
      | Some api_key \<Rightarrow>
          if api_key = [] then
            Inl (PyErr ValueError ''APOLLO_API_KEY not set in environment variables.'')
          else Inr \<lparr>apollo_domain = d\<rparr>)"

definition apollo_file_path :: "world \<Rightarrow> ApolloOrganizationAPI \<Rightarrow> string" where
  "apollo_file_path w self =
     path_join (results_dir w)
       (str_replace '' '' ''_'' (str_replace ''.'' ''_'' (apollo_domain self))
          @ ''_apollo_api_response.json'')"

text \<open>The part of \<open>organization_enrichment_api\<close> after the cache check: one GET, the body
  parsed, written to the cache file, returned. No status check.\<close>

definition apollo_fresh_call ::
    "world \<Rightarrow> ApolloOrganizationAPI \<Rightarrow> filesystem
      \<Rightarrow> (py_error + json) \<times> filesystem \<times> net_call list" where
  "apollo_fresh_call w self fs =
     (let file_path = apollo_file_path w self;
          calls = [ApolloRequest (apollo_domain self)]
      in case apollo_get w (apollo_domain self) of
           Inl e \<Rightarrow> (Inl e, fs, calls)
         | Inr response \<Rightarrow>
             (case json_body response of
                Inl e \<Rightarrow> (Inl e, fs, calls)
              | Inr result \<Rightarrow>
                  if writable w file_path
                  then (Inr result, fs(file_path \<mapsto> Inr result), calls)
                  else (Inl (PyErr IOError []), fs, calls)))"

definition organization_enrichment_api ::
    "world \<Rightarrow> ApolloOrganizationAPI \<Rightarrow> filesystem
      \<Rightarrow> (py_error + json) \<times> filesystem \<times> net_call list" where
  "organization_enrichment_api w self fs =
     (case fs (apollo_file_path w self) of
        None \<Rightarrow> apollo_fresh_call w self fs
      | Some (Inr result) \<Rightarrow> (Inr result, fs, [])
      | Some (Inl e) \<Rightarrow>
          if cache_read_caught e then apollo_fresh_call w self fs
          else (Inl e, fs, []))"

subsection \<open>\<open>third_party_api/coresignal_multisource_api.py\<close>\<close>

record CoreSignalMultiSourceAPI =
  website :: string
  website_slug :: string

definition CoreSignalMultiSourceAPI_init ::
    "world \<Rightarrow> string \<Rightarrow> py_error + CoreSignalMultiSourceAPI" where
  "CoreSignalMultiSourceAPI_init w site =
     (case getenv_CORESIGNAL_API_KEY w of
        None \<Rightarrow> Inl (PyErr ValueError ''CORESIGNAL_API_KEY not set in environment variables.'')
      | Some api_key \<Rightarrow>
          if api_key = [] then
            Inl (PyErr ValueError ''CORESIGNAL_API_KEY not set in environment variables.'')
          else Inr \<lparr>website = site,
                    website_slug =
                      str_replace ''/'' ''_'' (str_replace ''.'' ''_''
                        (str_replace ''www.'' [] (str_replace ''http://'' []
                          (str_replace ''https://'' [] site))))\<rparr>)"

definition coresignal_file_path :: "world \<Rightarrow> CoreSignalMultiSourceAPI \<Rightarrow> string" where
  "coresignal_file_path w self =
     path_join (results_dir w)
       (website_slug self @ ''_coresignal_multisource_api_response.json'')"

text \<open>\<open>response.raise_for_status()\<close>.\<close>

definition raise_for_status :: "http_response \<Rightarrow> py_error + unit" where
  "raise_for_status response =
     (if 400 \<le> status_code response \<and> status_code response < 600
      then Inl (PyErr HTTPError []) else Inr ())"

definition coresignal_fresh_call ::
    "world \<Rightarrow> CoreSignalMultiSourceAPI \<Rightarrow> filesystem
      \<Rightarrow> (py_error + json) \<times> filesystem \<times> net_call list" where
  "coresignal_fresh_call w self fs =
     (let file_path = coresignal_file_path w self;
          calls = [CoreSignalRequest (website self)]
      in case coresignal_get w (website self) of
           Inl e \<Rightarrow> (Inl e, fs, calls)
         | Inr response \<Rightarrow>
             (case raise_for_status response of
                Inl e \<Rightarrow> (Inl e, fs, calls)
              | Inr _ \<Rightarrow>
                  (case json_body response of
                     Inl e \<Rightarrow> (Inl e, fs, calls)
                   | Inr result \<Rightarrow>
                       if writable w file_path
                       then (Inr result, fs(file_path \<mapsto> Inr result), calls)
                       else (Inl (PyErr IOError []), fs, calls))))"

definition company_multi_source_enrich ::
    "world \<Rightarrow> CoreSignalMultiSourceAPI \<Rightarrow> filesystem
      \<Rightarrow> (py_error + json) \<times> filesystem \<times> net_call list" where
  "company_multi_source_enrich w self fs =
     (case fs (coresignal_file_path w self) of
        None \<Rightarrow> coresignal_fresh_call w self fs
      | Some (Inr result) \<Rightarrow> (Inr result, fs, [])
      | Some (Inl e) \<Rightarrow>
          if cache_read_caught e then coresignal_fresh_call w self fs
          else (Inl e, fs, []))"

subsection \<open>\<open>search_engines/tavily_search.py\<close>\<close>

text \<open>\<open>str(v)\<close>, as an f-string formats a value.\<close>

definition py_str :: "world \<Rightarrow> json \<Rightarrow> string" where
  "py_str w v = (case v of JStr s \<Rightarrow> s | _ \<Rightarrow> format_value w v)"

text \<open>\<open>get_major_customers_async\<close>: no cache file is read or written.\<close>

definition get_major_customers_async ::
    "world \<Rightarrow> json \<Rightarrow> (py_error + TavilySearchResult list) \<times> net_call list" where
  "get_major_customers_async w name =
     (let query = ''Who are the major/enterprise customers of '' @ py_str w name @ ''?''
      in (tavily_search w query, [TavilySearch query]))"

section \<open>The researcher: \<open>researchers/multi_source_researcher.py\<close>\<close>

text \<open>The fields of \<open>MultiSourceResearcher\<close> that the code reads back. \<open>_company_name\<close>
  is \<open>JNull\<close> for Python's \<open>None\<close>. The constructor builds the two clients, each of which
  raises without its API key; \<open>ChatOpenAI(model="o3")\<close> is taken to construct.\<close>

record researcher =
  domain :: string
  apollo_api :: ApolloOrganizationAPI
  coresignal_api :: CoreSignalMultiSourceAPI
  company_name_attr :: json

definition MultiSourceResearcher_init :: "world \<Rightarrow> string \<Rightarrow> py_error + researcher" where
  "MultiSourceResearcher_init w d =
     (case ApolloOrganizationAPI_init w d of
        Inl e \<Rightarrow> Inl e
      | Inr apollo \<Rightarrow>
          (case CoreSignalMultiSourceAPI_init w d of
             Inl e \<Rightarrow> Inl e
           | Inr coresignal \<Rightarrow>
               Inr \<lparr>domain = d, apollo_api = apollo, coresignal_api = coresignal,
                    company_name_attr = JNull\<rparr>))"

definition fallback_name :: "string \<Rightarrow> string" where
  "fallback_name d = str_title (str_replace ''www.'' [] (str_replace ''.com'' [] d))"

text \<open>The property \<open>company_name\<close>.\<close>

definition company_name :: "researcher \<Rightarrow> json" where
  "company_name self =
     (if company_name_attr self = JNull then JStr (fallback_name (domain self))
      else company_name_attr self)"

text \<open>The value of \<open>apollo_data and apollo_data.get("organization", {}).get("name")\<close>.\<close>

definition organization_name :: "json \<Rightarrow> py_error + json" where
  "organization_name apollo_data =
     (if \<not> truthy apollo_data then Inr apollo_data
      else (case py_get apollo_data ''organization'' (JObj []) of
              Inl e \<Rightarrow> Inl e
            | Inr org \<Rightarrow> py_get org ''name'' JNull))"

text \<open>The value of \<open>data and data.get(key)\<close>.\<close>

definition and_get :: "json \<Rightarrow> string \<Rightarrow> py_error + json" where
  "and_get data k = (if \<not> truthy data then Inr data else py_get data k JNull)"

text \<open>\<open>_set_company_name_from_data\<close>: the value assigned in each branch is the value
  the branch's test has just read.\<close>

definition set_company_name_from_data ::
    "researcher \<Rightarrow> json \<Rightarrow> json \<Rightarrow> py_error + researcher" where
  "set_company_name_from_data self apollo_data coresignal_data =
     (case organization_name apollo_data of
        Inl e \<Rightarrow> Inl e
      | Inr n1 \<Rightarrow>
          if truthy n1 then Inr (self\<lparr>company_name_attr := n1\<rparr>)
          else
            (case and_get coresignal_data ''company_name'' of
               Inl e \<Rightarrow> Inl e
             | Inr n2 \<Rightarrow>
                 if truthy n2 then Inr (self\<lparr>company_name_attr := n2\<rparr>)
                 else
                   (case and_get apollo_data ''name'' of
                      Inl e \<Rightarrow> Inl e
                    | Inr n3 \<Rightarrow>
                        if truthy n3 then Inr (self\<lparr>company_name_attr := n3\<rparr>)
                        else Inr self)))"

definition fetch_apollo_data ::
    "world \<Rightarrow> researcher \<Rightarrow> filesystem \<Rightarrow> (py_error + json) \<times> filesystem \<times> net_call list" where
  "fetch_apollo_data w self fs = organization_enrichment_api w (apollo_api self) fs"

definition fetch_coresignal_data ::
    "world \<Rightarrow> researcher \<Rightarrow> filesystem \<Rightarrow> (py_error + json) \<times> filesystem \<times> net_call list" where
  "fetch_coresignal_data w self fs = company_multi_source_enrich w (coresignal_api self) fs"

definition fetch_tavily_data ::
    "world \<Rightarrow> researcher \<Rightarrow> (py_error + TavilySearchResult list) \<times> net_call list" where
  "fetch_tavily_data w self = get_major_customers_async w (company_name self)"

subsection \<open>Report synthesis\<close>

text \<open>A list comprehension or loop whose body can raise: the first exception ends it.\<close>

fun map_err :: "('a \<Rightarrow> py_error + 'b) \<Rightarrow> 'a list \<Rightarrow> py_error + 'b list" where
  "map_err f [] = Inr []"
| "map_err f (x # xs) =
     (case f x of
        Inl e \<Rightarrow> Inl e
      | Inr y \<Rightarrow> (case map_err f xs of Inl e \<Rightarrow> Inl e | Inr ys \<Rightarrow> Inr (y # ys)))"

text \<open>\<open>v[:n]\<close> and \<open>len(v)\<close>; a string is cut and measured in characters. (Slicing a dict
  raises \<open>KeyError\<close> instead from Python 3.12 on.)\<close>

fun py_slice_to :: "nat \<Rightarrow> json \<Rightarrow> py_error + json" where
  "py_slice_to n (JStr s) = Inr (JStr (concat (take n (utf8_chars s))))"
| "py_slice_to n (JArr xs) = Inr (JArr (take n xs))"
| "py_slice_to n _ = Inl (PyErr TypeError [])"

fun py_len :: "json \<Rightarrow> py_error + nat" where
  "py_len (JStr s) = Inr (length (utf8_chars s))"
| "py_len (JArr xs) = Inr (length xs)"
| "py_len (JObj kvs) = Inr (length kvs)"
| "py_len _ = Inl (PyErr TypeError [])"

definition news_block :: "nat \<Rightarrow> nat \<times> json \<Rightarrow> py_error + news_item" where
  "news_block budget iu =
     (case iu of (i, update) \<Rightarrow>
      (case py_get update ''date'' (JStr ''No Date'') of
         Inl e \<Rightarrow> Inl e
       | Inr date \<Rightarrow>
      (case py_get update ''description'' (JStr ''No description available'') of
         Inl e \<Rightarrow> Inl e
       | Inr description \<Rightarrow>
      (case py_slice_to budget description of
         Inl e \<Rightarrow> Inl e
       | Inr summary \<Rightarrow>
      (case py_get update ''description'' (JStr []) of
         Inl e \<Rightarrow> Inl e
       | Inr d \<Rightarrow>
      (case py_len d of
         Inl e \<Rightarrow> Inl e
       | Inr n \<Rightarrow>
      (case py_get update ''reactions_count'' JNull of
         Inl e \<Rightarrow> Inl e
       | Inr reactions \<Rightarrow>
      (case py_get update ''comments_count'' JNull of
         Inl e \<Rightarrow> Inl e
       | Inr comments \<Rightarrow>
           Inr \<lparr>item_number = i, item_date = date, item_summary = summary,
                item_ellipsis = (n > budget),
                item_reactions = (if truthy reactions then Some reactions else None),
                item_comments = (if truthy comments then Some comments else None)\<rparr>))))))))"

text \<open>The text \<open>news\<close>: \<open>None\<close> is "No recent news items found."\<close>

definition build_news :: "nat \<Rightarrow> json \<Rightarrow> py_error + news_item list option" where
  "build_news budget company_updates =
     (if truthy company_updates then
        (case company_updates of
           JArr updates \<Rightarrow>
             (case map_err (news_block budget) (zip [1 ..< 4] (take 3 updates)) of
                Inl e \<Rightarrow> Inl e
              | Inr items \<Rightarrow> Inr (Some items))
         | JStr s \<Rightarrow> Inl (PyErr AttributeError [])
         | _ \<Rightarrow> Inl (PyErr TypeError []))
      else Inr None)"

text \<open>\<open>[update.get("description", "") for update in company_updates]\<close>.\<close>

definition all_descriptions :: "json \<Rightarrow> py_error + json list" where
  "all_descriptions company_updates =
     (case company_updates of
        JArr updates \<Rightarrow> map_err (\<lambda>update. py_get update ''description'' (JStr [])) updates
      | JStr s \<Rightarrow> if s = [] then Inr [] else Inl (PyErr AttributeError [])
      | JObj kvs \<Rightarrow> if kvs = [] then Inr [] else Inl (PyErr AttributeError [])
      | _ \<Rightarrow> Inl (PyErr TypeError []))"

text \<open>The sort key \<open>x.get("similarity_score") or 0\<close>.\<close>

definition similarity_key :: "json \<Rightarrow> py_error + json" where
  "similarity_key x =
     (case py_get x ''similarity_score'' JNull of
        Inl e \<Rightarrow> Inl e
      | Inr v \<Rightarrow> Inr (if truthy v then v else JNum 0))"

text \<open>A key as a number: a JSON number, or a boolean (\<open>True\<close> compares as 1).\<close>

fun key_number :: "json \<Rightarrow> rat option" where
  "key_number (JNum n) = Some n"
| "key_number (JBool b) = Some (if b then 1 else 0)"
| "key_number _ = None"

definition similarity :: "json \<Rightarrow> rat" where
  "similarity x =
     (case similarity_key x of
        Inl e \<Rightarrow> 0
      | Inr k \<Rightarrow> (case key_number k of None \<Rightarrow> 0 | Some n \<Rightarrow> n))"

text \<open>
  \<open>competitors.sort(key=lambda x: x.get("similarity_score") or 0, reverse=True)\<close>.
  Python computes every key first (an element that is no dict raises), then sorts. When
  every key is a number the order is the stable descending one (an insertion sort on
  the negated key is that order). With fewer than two elements nothing is compared and
  the list stays as it is. What Python does with two or more keys that are not all
  numbers (strings are ordered as text, a number against a string raises \<open>TypeError\<close>) is
  not written out here: it is what \<open>list_sort_reverse\<close> gives.
\<close>

definition descending_by_similarity :: "json list \<Rightarrow> json list" where
  "descending_by_similarity cs = sort_key (\<lambda>x. - similarity x) cs"

definition sort_competitors :: "world \<Rightarrow> json list \<Rightarrow> py_error + json list" where
  "sort_competitors w cs =
     (case map_err similarity_key cs of
        Inl e \<Rightarrow> Inl e
      | Inr keys \<Rightarrow>
          if \<forall>k \<in> set keys. key_number k \<noteq> None then Inr (descending_by_similarity cs)
          else if length cs < 2 then Inr cs
          else list_sort_reverse w keys cs)"

text \<open>Every competitor is a dict whose similarity score is a number, or is missing or
  empty and so counts as the number zero.\<close>

definition numeric_scores :: "json list \<Rightarrow> bool" where
  "numeric_scores cs =
     (\<forall>x \<in> set cs. case similarity_key x of
                      Inl e \<Rightarrow> False
                    | Inr k \<Rightarrow> key_number k \<noteq> None)"

text \<open>The list object returned by \<open>coresignal_data.get("competitors", [])\<close> is the one
  inside the payload when the key is there, so sorting it in place changes the payload;
  the default \<open>[]\<close> is a fresh list.\<close>

definition store_competitors :: "json \<Rightarrow> json list \<Rightarrow> json" where
  "store_competitors coresignal_data sorted_competitors =
     (case coresignal_data of
        JObj kvs \<Rightarrow>
          (case map_of kvs ''competitors'' of
             None \<Rightarrow> coresignal_data
           | Some v \<Rightarrow> JObj (AList.update ''competitors'' (JArr sorted_competitors) kvs))
      | _ \<Rightarrow> coresignal_data)"

text \<open>The steps of both synthesizers before the prompt is built, on the CoreSignal
  payload: the news text, the descriptions, the sorted competitor list and its first 5
  (\<open>competitors[:5]\<close>), and the payload as the in-place sort leaves it.\<close>

record prepared =
  news :: "news_item list option"
  all_company_updates :: "json list"
  competitors :: "json list"
  payload_after :: json

definition prepare_payload :: "world \<Rightarrow> json \<Rightarrow> py_error + prepared" where
  "prepare_payload w coresignal_data =
     (case py_get coresignal_data ''company_updates'' (JArr []) of
        Inl e \<Rightarrow> Inl e
      | Inr company_updates \<Rightarrow>
     (case build_news 500 company_updates of
        Inl e \<Rightarrow> Inl e
      | Inr news_text \<Rightarrow>
     (case all_descriptions company_updates of
        Inl e \<Rightarrow> Inl e
      | Inr descriptions \<Rightarrow>
     (case py_get coresignal_data ''competitors'' (JArr []) of
        Inl e \<Rightarrow> Inl e
      | Inr (JArr cs) \<Rightarrow>
          (case sort_competitors w cs of
             Inl e \<Rightarrow> Inl e
           | Inr sorted_cs \<Rightarrow>
               Inr \<lparr>news = news_text, all_company_updates = descriptions,
                    competitors = take 5 sorted_cs,
                    payload_after = store_competitors coresignal_data sorted_cs\<rparr>)
      | Inr _ \<Rightarrow> Inl (PyErr AttributeError [])))))"

text \<open>\<open>generate_llm_company_report\<close>: the report or the exception, the CoreSignal payload
  as the call leaves it, and the prompts sent to the model.\<close>

definition generate_llm_company_report ::
    "world \<Rightarrow> researcher \<Rightarrow> json \<Rightarrow> json \<Rightarrow> TavilySearchResult list
      \<Rightarrow> (py_error + string) \<times> json \<times> llm_prompt list" where
  "generate_llm_company_report w self apollo_data coresignal_data customers =
     (case prepare_payload w coresignal_data of
        Inl e \<Rightarrow> (Inl e, coresignal_data, [])
      | Inr prep \<Rightarrow>
          (let prompt = \<lparr>prompt_company_name = company_name self,
                         prompt_coresignal_data = payload_after prep,
                         prompt_apollo_data = apollo_data,
                         prompt_customers = customers\<rparr>
           in (llm_ainvoke w prompt, payload_after prep, [prompt])))"

text \<open>\<open>generate_markdown_report_with_llm\<close> of \<open>coresignal_multisource_api.py\<close>: the same
  steps, then a prompt that interpolates their results and the payload.\<close>

definition generate_markdown_report_with_llm ::
    "world \<Rightarrow> CoreSignalMultiSourceAPI \<Rightarrow> json
      \<Rightarrow> (py_error + string) \<times> json \<times> coresignal_prompt list" where
  "generate_markdown_report_with_llm w self api_response =
     (case prepare_payload w api_response of
        Inl e \<Rightarrow> (Inl e, api_response, [])
      | Inr prep \<Rightarrow>
          (case company_schema w of
             Inl e \<Rightarrow> (Inl e, payload_after prep, [])
           | Inr schema \<Rightarrow>
               (let prompt = \<lparr>cp_website = website self,
                              cp_schema = schema,
                              cp_news = news prep,
                              cp_competitors = competitors prep,
                              cp_all_company_updates = all_company_updates prep,
                              cp_api_response = payload_after prep\<rparr>
                in (llm_invoke w prompt, payload_after prep, [prompt]))))"

subsection \<open>\<open>research_company\<close>\<close>

text \<open>
  \<open>asyncio.gather\<close> of the three fetches, without \<open>return_exceptions\<close>: every task runs
  to its end, and the first exception raised, in time, is the one that reaches the
  caller. Which task finishes first is not fixed by the program, so the finishing time
  of each task is a parameter; tasks that finish together are taken in task order.
\<close>

datatype provider = Apollo | Tavily | CoreSignal

fun failed :: "nat \<Rightarrow> py_error + 'a \<Rightarrow> (nat \<times> py_error) list" where
  "failed t (Inl e) = [(t, e)]"
| "failed t (Inr x) = []"

fun first_raised :: "(nat \<times> py_error) list \<Rightarrow> py_error" where
  "first_raised [] = PyErr OtherError []"
| "first_raised [(t, e)] = e"
| "first_raised ((t, e) # (t', e') # rest) =
     (if t \<le> t' then first_raised ((t, e) # rest) else first_raised ((t', e') # rest))"

definition gather ::
    "(provider \<Rightarrow> nat) \<Rightarrow> py_error + 'a \<Rightarrow> py_error + 'b \<Rightarrow> py_error + 'c
      \<Rightarrow> py_error + 'a \<times> 'b \<times> 'c" where
  "gather finished ra rt rc =
     (case (ra, rt, rc) of
        (Inr a, Inr t, Inr c) \<Rightarrow> Inr (a, t, c)
      | _ \<Rightarrow> Inl (first_raised (failed (finished Apollo) ra @ failed (finished Tavily) rt
                                  @ failed (finished CoreSignal) rc)))"

text \<open>The dict that \<open>research_company\<close> returns.\<close>

record research_result =
  result_company_name :: json
  result_domain :: string
  report :: string
  raw_apollo_data :: json
  raw_tavily_customers :: "TavilySearchResult list"
  raw_coresignal_data :: json

text \<open>One call of \<open>research_company\<close>: what it returns or raises, the researcher and the
  cache files afterwards, the network calls made (listed by task) and the prompts sent
  to the model.\<close>

record research_run =
  returned :: "py_error + research_result"
  self_after :: researcher
  files_after :: filesystem
  net_calls :: "net_call list"
  llm_calls :: "llm_prompt list"

definition research_company ::
    "world \<Rightarrow> (provider \<Rightarrow> nat) \<Rightarrow> researcher \<Rightarrow> filesystem \<Rightarrow> research_run" where
  "research_company w finished self fs =
     (case fetch_apollo_data w self fs of (ra, fs1, calls_a) \<Rightarrow>
      (case fetch_tavily_data w self of (rt, calls_t) \<Rightarrow>
      (case fetch_coresignal_data w self fs1 of (rc, fs2, calls_c) \<Rightarrow>
      (case gather finished ra rt rc of
         Inl e \<Rightarrow>
           \<lparr>returned = Inl e, self_after = self, files_after = fs2,
            net_calls = calls_a @ calls_t @ calls_c, llm_calls = []\<rparr>
       | Inr (apollo_data, customers, coresignal_data) \<Rightarrow>
           (case set_company_name_from_data self apollo_data coresignal_data of
              Inl e \<Rightarrow>
                \<lparr>returned = Inl e, self_after = self, files_after = fs2,
                 net_calls = calls_a @ calls_t @ calls_c, llm_calls = []\<rparr>
            | Inr self' \<Rightarrow>
                (case generate_llm_company_report w self' apollo_data coresignal_data customers of
                   (Inl e, coresignal_after, prompts) \<Rightarrow>
                     \<lparr>returned = Inl e, self_after = self', files_after = fs2,
                      net_calls = calls_a @ calls_t @ calls_c, llm_calls = prompts\<rparr>
                 | (Inr text, coresignal_after, prompts) \<Rightarrow>
                     \<lparr>returned =
                        Inr \<lparr>result_company_name = company_name self',
                             result_domain = domain self',
                             report = text,
                             raw_apollo_data = apollo_data,
                             raw_tavily_customers = customers,
                             raw_coresignal_data = coresignal_after\<rparr>,
                      self_after = self', files_after = fs2,
                      net_calls = calls_a @ calls_t @ calls_c,
                      llm_calls = prompts\<rparr>))))))"

subsection \<open>Reading a run\<close>

fun call_provider :: "net_call \<Rightarrow> provider" where
  "call_provider (ApolloRequest d) = Apollo"
| "call_provider (CoreSignalRequest site) = CoreSignal"
| "call_provider (TavilySearch q) = Tavily"

definition calls_to :: "provider \<Rightarrow> net_call list \<Rightarrow> net_call list" where
  "calls_to p calls = filter (\<lambda>c. call_provider c = p) calls"

text \<open>The dict returned, if one was.\<close>

definition result_of :: "research_run \<Rightarrow> research_result option" where
  "result_of run = (case returned run of Inl e \<Rightarrow> None | Inr res \<Rightarrow> Some res)"

text \<open>The competitor list of a CoreSignal payload (empty when there is none).\<close>

definition competitors_of :: "json \<Rightarrow> json list" where
  "competitors_of payload =
     (case py_get payload ''competitors'' (JArr []) of
        Inr (JArr cs) \<Rightarrow> cs
      | _ \<Rightarrow> [])"

subsection \<open>The name priority, as specified\<close>

text \<open>A field of a payload is present when the path of keys leads to a value that is
  not empty (\<open>null\<close>, \<open>""\<close>, \<open>0\<close>, \<open>false\<close>, \<open>[]\<close> and \<open>{}\<close> are empty).\<close>

fun present_field :: "json \<Rightarrow> string list \<Rightarrow> json option" where
  "present_field v [] = (if truthy v then Some v else None)"
| "present_field (JObj kvs) (k # ks) =
     (case map_of kvs k of None \<Rightarrow> None | Some v \<Rightarrow> present_field v ks)"
| "present_field _ (k # ks) = None"

text \<open>First the enrichment provider's organization name, else the multi-source
  provider's company name, else the enrichment provider's top-level name, else the
  fallback display name derived from the identifier.\<close>

definition canonical_name_by_priority :: "string \<Rightarrow> json \<Rightarrow> json \<Rightarrow> json" where
  "canonical_name_by_priority d apollo_data coresignal_data =
     (case present_field apollo_data [''organization'', ''name''] of
        Some n \<Rightarrow> n
      | None \<Rightarrow>
          (case present_field coresignal_data [''company_name''] of
             Some n \<Rightarrow> n
           | None \<Rightarrow>
               (case present_field apollo_data [''name''] of
                  Some n \<Rightarrow> n
                | None \<Rightarrow> JStr (fallback_name d))))"

section \<open>The request handlers: \<open>api/company_research_fastapi.py\<close>\<close>

text \<open>The request models. Both carry the same delivery options.\<close>

record delivery_options =
  email :: "string option"
  upload_to_drive :: bool
  upload_to_drive_folder_id :: "string option"

record MultiSourceCompanyResearchRequest = delivery_options +
  request_domain :: string
  return_data :: bool

record CoreSignalCompanyResearchRequest = delivery_options +
  request_website :: string

text \<open>\<open>EmailService\<close> of \<open>api/email_service.py\<close>: the two settings \<open>is_configured\<close> reads.\<close>

record EmailService =
  email_user :: "string option"
  email_password :: "string option"

text \<open>
  What the handlers use besides the providers:
  \<^item> \<open>GOOGLE_DRIVE_AVAILABLE\<close>, \<open>EMAIL_SERVICE_AVAILABLE\<close>: the module-level flags set by
    the two guarded imports.
  \<^item> \<open>md_stem\<close>, \<open>pdf_stem\<close>: the names \<open>tempfile.NamedTemporaryFile\<close> picks, without
    the suffix.
  \<^item> \<open>pandoc text\<close>: \<open>subprocess.run(["pandoc", md_path, "-o", pdf_path], check=True)\<close>
    on a markdown file holding \<open>text\<close>; the exception raised, if any.
  \<^item> \<open>pdf_size\<close>: \<open>os.path.getsize(pdf_path)\<close> of the rendered file.
  \<^item> \<open>drive_upload folder name\<close>: \<open>GoogleDriveUploader().upload_file(...)\<close>; \<open>Inl\<close> when the
    constructor or the call raises, \<open>JNull\<close> for \<open>None\<close>.
  \<^item> \<open>new_EmailService\<close>: \<open>EmailService()\<close>, which raises on a malformed \<open>SMTP_PORT\<close>.
  \<^item> \<open>smtp_send to attached\<close>: building and sending the message; the exception raised,
    if any.
  \<^item> \<open>timestamp_now\<close>, \<open>isoformat_now\<close>: \<open>datetime.now()\<close> as the file name and the
    response render it.
\<close>

record services =
  GOOGLE_DRIVE_AVAILABLE :: bool
  EMAIL_SERVICE_AVAILABLE :: bool
  md_stem :: string
  pdf_stem :: string
  pandoc :: "string \<Rightarrow> py_error option"
  pdf_size :: nat
  drive_upload :: "string \<Rightarrow> string \<Rightarrow> py_error + json"
  new_EmailService :: "py_error + EmailService"
  smtp_send :: "string \<Rightarrow> bool \<Rightarrow> py_error option"
  timestamp_now :: string
  isoformat_now :: string

text \<open>\<open>JSONResponse(content)\<close>, \<open>FileResponse(path, filename, headers)\<close> and
  \<open>HTTPException(status_code, detail)\<close>.\<close>

datatype response =
    is_json: JSONResponse (content_of: json)
  | is_file: FileResponse (path_of: string) (filename_of: string)
               (headers_of: "(string \<times> json) list")
  | is_error: HTTPException (status_of: nat) (detail_of: string)

text \<open>One handled request: the response, the temporary files and cache files left, and
  the values of \<open>drive_result\<close> and \<open>email_result\<close> when the handler ended (\<open>None\<close> as
  in Python, also when it never reached them).\<close>

record handled =
  response :: response
  local_files :: "string set"
  cache_files :: filesystem
  drive_outcome :: "json option"
  email_outcome :: "json option"

definition failed_request :: "response \<Rightarrow> string set \<Rightarrow> filesystem \<Rightarrow> handled" where
  "failed_request r files fs =
     \<lparr>response = r, local_files = files, cache_files = fs,
      drive_outcome = None, email_outcome = None\<rparr>"

definition md_path :: "services \<Rightarrow> string" where
  "md_path sv = md_stem sv @ ''.md''"

definition pdf_path :: "services \<Rightarrow> string" where
  "pdf_path sv = pdf_stem sv @ ''.pdf''"

text \<open>\<open>bool(s)\<close> of an optional string.\<close>

fun truthy_str :: "string option \<Rightarrow> bool" where
  "truthy_str None = False"
| "truthy_str (Some s) = (s \<noteq> [])"

subsection \<open>The PDF file name\<close>

text \<open>\<open>s.isalnum()\<close>: the string is not empty and each of its characters is a letter or a
  digit. For an ASCII character that is \<open>A-Z\<close>, \<open>a-z\<close>, \<open>0-9\<close>; Unicode has many more
  letters and digits, which \<open>unicode_isalnum\<close> tells.\<close>

fun isalnum_char :: "world \<Rightarrow> string \<Rightarrow> bool" where
  "isalnum_char w [c] =
     (if (of_char c :: nat) < 128 then is_upper c \<or> is_lower c \<or> is_digit c
      else unicode_isalnum w [c])"
| "isalnum_char w ch = unicode_isalnum w ch"

definition isalnum :: "world \<Rightarrow> string \<Rightarrow> bool" where
  "isalnum w s = (s \<noteq> [] \<and> (\<forall>ch \<in> set (utf8_chars s). isalnum_char w ch))"

text \<open>\<open>for c in company_name\<close>: the characters of a string, the items of a list, the
  keys of a dict.\<close>

fun py_iter :: "json \<Rightarrow> py_error + json list" where
  "py_iter (JStr s) = Inr (map JStr (utf8_chars s))"
| "py_iter (JArr xs) = Inr xs"
| "py_iter (JObj kvs) = Inr (map (\<lambda>kv. JStr (fst kv)) kvs)"
| "py_iter _ = Inl (PyErr TypeError [])"

text \<open>\<open>c if c.isalnum() or c in (" ", "-", "_")\<close>: the kept text of one item.\<close>

fun kept_char :: "world \<Rightarrow> json \<Rightarrow> py_error + string" where
  "kept_char w (JStr s) =
     Inr (if isalnum w s \<or> s = '' '' \<or> s = ''-'' \<or> s = ''_'' then s else [])"
| "kept_char w _ = Inl (PyErr AttributeError [])"

definition safe_company_name :: "world \<Rightarrow> json \<Rightarrow> py_error + string" where
  "safe_company_name w name =
     (case py_iter name of
        Inl e \<Rightarrow> Inl e
      | Inr cs \<Rightarrow>
          (case map_err (kept_char w) cs of
             Inl e \<Rightarrow> Inl e
           | Inr kept \<Rightarrow> Inr (str_replace '' '' ''_'' (concat kept))))"

subsection \<open>The sinks\<close>

definition sink_failure :: "string \<Rightarrow> json" where
  "sink_failure msg = JObj [(''success'', JBool False), (''error'', JStr msg)]"

text \<open>\<open>r and r.get("success")\<close> as a condition, for a sink result \<open>r\<close> that may be \<open>None\<close>.\<close>

fun succeeded :: "json option \<Rightarrow> bool" where
  "succeeded None = False"
| "succeeded (Some r) =
     (truthy r \<and> (case py_get r ''success'' JNull of Inl e \<Rightarrow> False | Inr v \<Rightarrow> truthy v))"

text \<open>The dict built from a truthy \<open>upload_result\<close>.\<close>

definition uploaded :: "json \<Rightarrow> py_error + json" where
  "uploaded upload_result =
     (case py_get upload_result ''id'' JNull of
        Inl e \<Rightarrow> Inl e
      | Inr file_id \<Rightarrow>
     (case py_get upload_result ''name'' JNull of
        Inl e \<Rightarrow> Inl e
      | Inr file_name \<Rightarrow>
     (case py_get upload_result ''webViewLink'' JNull of
        Inl e \<Rightarrow> Inl e
      | Inr view_link \<Rightarrow>
     (case py_get upload_result ''size'' JNull of
        Inl e \<Rightarrow> Inl e
      | Inr size_value \<Rightarrow>
          Inr (JObj [(''success'', JBool True), (''file_id'', file_id),
                     (''file_name'', file_name), (''view_link'', view_link),
                     (''size'', size_value)])))))"

text \<open>"Handle Google Drive upload if requested": \<open>drive_result\<close>, \<open>None\<close> when no upload
  was requested. The two handlers differ only in the message for a missing folder id.\<close>

definition drive_stage ::
    "services \<Rightarrow> string \<Rightarrow> 'a delivery_options_scheme \<Rightarrow> string \<Rightarrow> json option" where
  "drive_stage sv no_folder_message request pdf_filename =
     (if \<not> upload_to_drive request then None
      else if \<not> GOOGLE_DRIVE_AVAILABLE sv then
        Some (sink_failure
          ''Google Drive uploader not available. Check drive_uploader_complete.py'')
      else
        (case upload_to_drive_folder_id request of
           None \<Rightarrow> Some (sink_failure no_folder_message)
         | Some folder_id \<Rightarrow>
             if folder_id = [] then Some (sink_failure no_folder_message)
             else
               (case drive_upload sv folder_id pdf_filename of
                  Inl e \<Rightarrow> Some (sink_failure (str_of_error e))
                | Inr upload_result \<Rightarrow>
                    if truthy upload_result then
                      (case uploaded upload_result of
                         Inl e \<Rightarrow> Some (sink_failure (str_of_error e))
                       | Inr drive_result \<Rightarrow> Some drive_result)
                    else
                      Some (sink_failure
                        ''Upload failed - no result returned from Google Drive''))))"

definition is_configured :: "EmailService \<Rightarrow> bool" where
  "is_configured self = (truthy_str (email_user self) \<and> truthy_str (email_password self))"

text \<open>\<open>send_pdf_report\<close>: the file is attached when it exists and is below 25 MB; every
  exception of building and sending becomes a failure result.\<close>

definition send_pdf_report ::
    "services \<Rightarrow> EmailService \<Rightarrow> string \<Rightarrow> bool \<Rightarrow> json" where
  "send_pdf_report sv self to_email pdf_exists =
     (if \<not> is_configured self then
        sink_failure ''Email service not configured. Contact administrator.''
      else
        (case smtp_send sv to_email (pdf_exists \<and> pdf_size sv < 25 * 1024 * 1024) of
           None \<Rightarrow>
             JObj [(''success'', JBool True), (''message'', JStr (''Report sent to '' @ to_email))]
         | Some e \<Rightarrow> sink_failure (''Failed to send email: '' @ str_of_error e)))"

text \<open>"Handle email sending if requested": \<open>email_result\<close>, \<open>None\<close> when no address was
  given or the email module is not available.\<close>

definition email_stage ::
    "services \<Rightarrow> 'a delivery_options_scheme \<Rightarrow> string set \<Rightarrow> json option" where
  "email_stage sv request files =
     (case email request of
        None \<Rightarrow> None
      | Some to_email \<Rightarrow>
          if to_email \<noteq> [] \<and> EMAIL_SERVICE_AVAILABLE sv then
            (case new_EmailService sv of
               Inl e \<Rightarrow> Some (sink_failure (''Email error: '' @ str_of_error e))
             | Inr email_service \<Rightarrow>
                 if is_configured email_service then
                   Some (send_pdf_report sv email_service to_email (pdf_path sv \<in> files))
                 else Some (sink_failure ''Email service not configured''))
          else None)"

text \<open>\<open>email_result.get("success", False) if email_result else False\<close>.\<close>

definition email_sent_value :: "json option \<Rightarrow> json" where
  "email_sent_value email_result =
     (case email_result of
        None \<Rightarrow> JBool False
      | Some r \<Rightarrow>
          if truthy r then (case py_get r ''success'' (JBool False) of Inl e \<Rightarrow> JBool False | Inr v \<Rightarrow> v)
          else JBool False)"

text \<open>An optional entry of the response dict: added under \<open>if value:\<close>.\<close>

fun optional_entry :: "string \<Rightarrow> json option \<Rightarrow> (string \<times> json) list" where
  "optional_entry k None = []"
| "optional_entry k (Some v) = (if truthy v then [(k, v)] else [])"

definition model_dump :: "TavilySearchResult \<Rightarrow> json" where
  "model_dump c =
     JObj [(''url'', JStr (url c)), (''title'', JStr (title c)), (''score'', JNum (score c)),
           (''published_date'', (case published_date c of None \<Rightarrow> JNull | Some d \<Rightarrow> JStr d)),
           (''content'', (case content c of None \<Rightarrow> JNull | Some t \<Rightarrow> JStr t))]"

definition raw_data_entry :: "bool \<Rightarrow> research_result \<Rightarrow> (string \<times> json) list" where
  "raw_data_entry wanted res =
     (if wanted then
        [(''raw_data'',
          JObj [(''apollo_data'', raw_apollo_data res),
                (''tavily_customers'', JArr (map model_dump (raw_tavily_customers res))),
                (''coresignal_data'', raw_coresignal_data res)])]
      else [])"

definition data_sources :: json where
  "data_sources = JArr [JStr ''Apollo Organization API'', JStr ''Tavily Search API'']"

text \<open>A sink result as a JSON value (\<open>None\<close> is \<open>null\<close>).\<close>

fun json_of_result :: "json option \<Rightarrow> json" where
  "json_of_result None = JNull"
| "json_of_result (Some r) = r"

text \<open>The headers of the download; the upload error is added under
  \<open>if drive_result and not drive_result.get("success")\<close>.\<close>

definition download_headers :: "string \<Rightarrow> json option \<Rightarrow> (string \<times> json) list" where
  "download_headers pdf_filename drive_result =
     (''Content-Disposition'', JStr (''attachment; filename='' @ pdf_filename))
     # (case drive_result of
          None \<Rightarrow> []
        | Some r \<Rightarrow>
            if truthy r \<and> \<not> succeeded drive_result then
              (case py_get r ''error'' (JStr ''Unknown error'') of
                 Inl e \<Rightarrow> []
               | Inr msg \<Rightarrow> [(''X-Drive-Upload-Error'', msg)])
            else [])"

text \<open>\<open>FileResponse(path=..., filename=..., media_type=..., headers=headers)\<close>: the
  constructor encodes every header value with \<open>v.encode("latin-1")\<close>, which raises
  \<open>UnicodeEncodeError\<close> for a string with a character above U+00FF (and
  \<open>AttributeError\<close> for a value that is no string). The file itself is opened only
  when the response is sent, after the handler has returned.\<close>

fun encode_latin1 :: "json \<Rightarrow> py_error + string" where
  "encode_latin1 (JStr s) =
     (if latin1_encodable s then Inr s else Inl (PyErr UnicodeEncodeError []))"
| "encode_latin1 _ = Inl (PyErr AttributeError [])"

definition new_FileResponse ::
    "string \<Rightarrow> string \<Rightarrow> (string \<times> json) list \<Rightarrow> py_error + response" where
  "new_FileResponse path filename headers =
     (case map_err (\<lambda>kv. encode_latin1 (snd kv)) headers of
        Inl e \<Rightarrow> Inl e
      | Inr encoded \<Rightarrow> Inr (FileResponse path filename headers))"

text \<open>The responses of the \<open>except\<close> clauses that the two handlers end with.\<close>

definition research_error :: "py_error \<Rightarrow> response" where
  "research_error e = HTTPException 500 (''Error in multi-source research: '' @ str_of_error e)"

definition generate_error :: "py_error \<Rightarrow> response" where
  "generate_error e = HTTPException 500 (''Error generating PDF report: '' @ str_of_error e)"

definition pandoc_error :: response where
  "pandoc_error = HTTPException 500 ''Error converting to PDF. Make sure pandoc is installed.''"

subsection \<open>\<open>multi_source_research_endpoint\<close>\<close>

text \<open>"Return appropriate response based on upload status, email status, and PDF
  generation": the response and the temporary files left. An exception raised while
  the download response is built is caught by the handler's \<open>except Exception\<close>, which
  answers with status 500 and removes nothing.\<close>

definition multi_source_response ::
    "services \<Rightarrow> MultiSourceCompanyResearchRequest \<Rightarrow> research_result \<Rightarrow> string
      \<Rightarrow> json option \<Rightarrow> json option \<Rightarrow> string set \<Rightarrow> response \<times> string set" where
  "multi_source_response sv request res pdf_filename drive_result email_result files =
     (if truthy_str (email request) then
        (JSONResponse (JObj (
           [(''message'',
               JStr ''Multi-source research completed and PDF generated successfully''),
            (''company_name'', result_company_name res),
            (''domain'', JStr (request_domain request)),
            (''pdf_filename'', JStr pdf_filename),
            (''timestamp'', JStr (isoformat_now sv)),
            (''data_sources'', data_sources),
            (''email_sent'', email_sent_value email_result)]
           @ optional_entry ''google_drive'' drive_result
           @ optional_entry ''email_result'' email_result
           @ raw_data_entry (return_data request) res)),
         if succeeded email_result \<or> succeeded drive_result
         then files - {pdf_path sv} else files)
      else if succeeded drive_result then
        (JSONResponse (JObj (
           [(''message'',
               JStr ''Multi-source research completed and PDF uploaded to Google Drive successfully''),
            (''company_name'', result_company_name res),
            (''domain'', JStr (request_domain request)),
            (''pdf_filename'', JStr pdf_filename),
            (''timestamp'', JStr (isoformat_now sv)),
            (''data_sources'', data_sources),
            (''google_drive'', json_of_result drive_result)]
           @ raw_data_entry (return_data request) res)),
         files - {pdf_path sv})
      else
        (case new_FileResponse (pdf_path sv) pdf_filename
                (download_headers pdf_filename drive_result) of
           Inl e \<Rightarrow> (research_error e, files)
         | Inr streamed \<Rightarrow> (streamed, files)))"

text \<open>The handler from "Handle Google Drive upload if requested" to its \<open>return\<close>, with
  the temporary files at that point.\<close>

definition multi_source_delivery ::
    "services \<Rightarrow> MultiSourceCompanyResearchRequest \<Rightarrow> research_result \<Rightarrow> string
      \<Rightarrow> string set \<Rightarrow> filesystem \<Rightarrow> handled" where
  "multi_source_delivery sv request res pdf_filename files3 cache =
     (let drive_result =
            drive_stage sv ''Google Drive upload folder ID is not set'' request pdf_filename;
          email_result = email_stage sv request files3
      in case multi_source_response sv request res pdf_filename
                drive_result email_result files3 of
           (resp, files4) \<Rightarrow>
             \<lparr>response = resp, local_files = files4, cache_files = cache,
              drive_outcome = drive_result, email_outcome = email_result\<rparr>)"

definition multi_source_research_endpoint ::
    "world \<Rightarrow> services \<Rightarrow> (provider \<Rightarrow> nat) \<Rightarrow> MultiSourceCompanyResearchRequest
      \<Rightarrow> filesystem \<Rightarrow> string set \<Rightarrow> handled" where
  "multi_source_research_endpoint w sv finished request fs files =
     (case MultiSourceResearcher_init w (request_domain request) of
        Inl e \<Rightarrow>
          failed_request (research_error e) files fs
      | Inr researcher \<Rightarrow>
     (let run = research_company w finished researcher fs in
      case returned run of
        Inl e \<Rightarrow>
          failed_request (research_error e) files (files_after run)
      | Inr research_result \<Rightarrow>
     (let files1 = insert (md_path sv) files in
      case safe_company_name w (result_company_name research_result) of
        Inl e \<Rightarrow>
          failed_request (research_error e) files1 (files_after run)
      | Inr safe_name \<Rightarrow>
     (let pdf_filename = safe_name @ ''_multi_source_report_'' @ timestamp_now sv @ ''.pdf'';
          files2 = insert (pdf_path sv) files1
      in case pandoc sv (report research_result) of
        Some e \<Rightarrow>
          failed_request
            (if exc_class_of e = CalledProcessError then pandoc_error else research_error e)
            files2 (files_after run)
      | None \<Rightarrow>
          multi_source_delivery sv request research_result pdf_filename
            (files2 - {md_path sv}) (files_after run)))))"

subsection \<open>\<open>coresignal_generate_pdf_report\<close>\<close>

definition coresignal_response ::
    "services \<Rightarrow> CoreSignalCompanyResearchRequest \<Rightarrow> json \<Rightarrow> string
      \<Rightarrow> json option \<Rightarrow> json option \<Rightarrow> string set \<Rightarrow> response \<times> string set" where
  "coresignal_response sv request name pdf_filename drive_result email_result files =
     (if truthy_str (email request) then
        (JSONResponse (JObj (
           [(''message'', JStr ''PDF generated successfully''),
            (''pdf_filename'', JStr pdf_filename),
            (''company_name'', name),
            (''generated_at'', JStr (isoformat_now sv)),
            (''email_sent'', email_sent_value email_result)]
           @ optional_entry ''google_drive'' drive_result
           @ optional_entry ''email_result'' email_result)),
         if succeeded email_result \<or> succeeded drive_result
         then files - {pdf_path sv} else files)
      else if succeeded drive_result then
        (JSONResponse (JObj
           [(''message'', JStr ''PDF generated and uploaded to Google Drive successfully''),
            (''pdf_filename'', JStr pdf_filename),
            (''company_name'', name),
            (''generated_at'', JStr (isoformat_now sv)),
            (''google_drive'', json_of_result drive_result)]),
         files - {pdf_path sv})
      else
        (case new_FileResponse (pdf_path sv) pdf_filename
                (download_headers pdf_filename drive_result) of
           Inl e \<Rightarrow> (generate_error e, files)
         | Inr streamed \<Rightarrow> (streamed, files)))"

definition coresignal_delivery ::
    "services \<Rightarrow> CoreSignalCompanyResearchRequest \<Rightarrow> json \<Rightarrow> string
      \<Rightarrow> string set \<Rightarrow> filesystem \<Rightarrow> handled" where
  "coresignal_delivery sv request name pdf_filename files3 cache =
     (let drive_result =
            drive_stage sv
              ''Google Drive folder ID is required for upload. Please provide upload_to_drive_folder_id.''
              request pdf_filename;
          email_result = email_stage sv request files3
      in case coresignal_response sv request name pdf_filename
                drive_result email_result files3 of
           (resp, files4) \<Rightarrow>
             \<lparr>response = resp, local_files = files4, cache_files = cache,
              drive_outcome = drive_result, email_outcome = email_result\<rparr>)"

definition coresignal_generate_pdf_report ::
    "world \<Rightarrow> services \<Rightarrow> CoreSignalCompanyResearchRequest
      \<Rightarrow> filesystem \<Rightarrow> string set \<Rightarrow> handled" where
  "coresignal_generate_pdf_report w sv request fs files =
     (let site = (if startswith (request_website request) ''http://''
                     \<or> startswith (request_website request) ''https://''
                  then request_website request
                  else ''https://'' @ request_website request)
      in case CoreSignalMultiSourceAPI_init w site of
        Inl e \<Rightarrow>
          failed_request (generate_error e) files (fs)
      | Inr client \<Rightarrow>
     (case company_multi_source_enrich w client fs of
        (Inl e, fs1, calls) \<Rightarrow>
          failed_request (generate_error e) files fs1
      | (Inr api_response, fs1, calls) \<Rightarrow>
     (case generate_markdown_report_with_llm w client api_response of
        (Inl e, response_after, prompts) \<Rightarrow>
          failed_request (generate_error e) files fs1
      | (Inr markdown_report, response_after, prompts) \<Rightarrow>
     (let files1 = insert (md_path sv) files in
      case py_get response_after ''company_name'' (JStr ''Unknown_Company'') of
        Inl e \<Rightarrow>
          failed_request (generate_error e) files1 fs1
      | Inr name \<Rightarrow>
     (case safe_company_name w name of
        Inl e \<Rightarrow>
          failed_request (generate_error e) files1 fs1
      | Inr safe_name \<Rightarrow>
     (let pdf_filename = safe_name @ ''_coresignal_report_'' @ timestamp_now sv @ ''.pdf'';
          files2 = insert (pdf_path sv) files1
      in case pandoc sv markdown_report of
        Some e \<Rightarrow>
          failed_request
            (if exc_class_of e = CalledProcessError then pandoc_error else generate_error e)
            files2 fs1
      | None \<Rightarrow>
          coresignal_delivery sv request name pdf_filename (files2 - {md_path sv}) fs1))))))"

section \<open>Sample inputs\<close>

text \<open>A domain, payloads and services on which the properties below are run.\<close>

definition sample_apollo_payload :: json where
  "sample_apollo_payload =
     JObj [(''organization'',
            JObj [(''name'', JStr ''Example Inc''), (''website_url'', JStr ''http://example.com'')])]"

definition competitor :: "string \<Rightarrow> rat \<Rightarrow> json" where
  "competitor n s = JObj [(''company_name'', JStr n), (''similarity_score'', JNum s)]"

text \<open>Eight competitors with distinct similarity scores.\<close>

definition eight_competitors :: "json list" where
  "eight_competitors =
     [competitor ''c1'' 3, competitor ''c2'' 8, competitor ''c3'' 1, competitor ''c4'' 6,
      competitor ''c5'' 2, competitor ''c6'' 7, competitor ''c7'' 5, competitor ''c8'' 4]"

definition sample_coresignal_payload :: json where
  "sample_coresignal_payload =
     JObj [(''company_name'', JStr ''Example''),
           (''competitors'', JArr eight_competitors),
           (''company_updates'', JArr [])]"

definition ok_response :: "json \<Rightarrow> http_response" where
  "ok_response body = \<lparr>status_code = 200, json_body = Inr body\<rparr>"

text \<open>A company name of three katakana letters (to, yo, ta): nine bytes in UTF-8.\<close>

definition katakana_name :: string where
  "katakana_name =
     [CHR 0xE3, CHR 0x83, CHR 0x88, CHR 0xE3, CHR 0x83, CHR 0xA8, CHR 0xE3, CHR 0x82, CHR 0xBF]"

text \<open>The sample world: both enrichment services answer, the search finds nothing, the
  model writes a one-line report. The only characters outside ASCII in the samples are
  the three katakana letters, and every similarity score is a number, so that the sort
  of other keys is never asked for.\<close>

definition sample_world :: world where
  "sample_world =
     \<lparr>getenv_APOLLO_API_KEY = Some ''apollo-key'',
      getenv_CORESIGNAL_API_KEY = Some ''coresignal-key'',
      module_dir = ''third_party_api'',
      apollo_get = (\<lambda>d. Inr (ok_response sample_apollo_payload)),
      coresignal_get = (\<lambda>site. Inr (ok_response sample_coresignal_payload)),
      writable = (\<lambda>p. True),
      tavily_search = (\<lambda>q. Inr []),
      llm_ainvoke = (\<lambda>p. Inr ''# Report''),
      llm_invoke = (\<lambda>p. Inr ''# Report''),
      company_schema = Inr ''{}'',
      format_value = (\<lambda>v. []),
      unicode_isalnum = (\<lambda>ch. ch \<in> set (utf8_chars katakana_name)),
      list_sort_reverse = (\<lambda>keys xs. Inl (PyErr TypeError []))\<rparr>"

text \<open>\<open>MultiSourceResearcher("example.com")\<close>.\<close>

definition sample_researcher :: researcher where
  "sample_researcher =
     \<lparr>domain = ''example.com'',
      apollo_api = \<lparr>apollo_domain = ''example.com''\<rparr>,
      coresignal_api = \<lparr>website = ''example.com'', website_slug = ''example_com''\<rparr>,
      company_name_attr = JNull\<rparr>"

text \<open>The web search is down.\<close>

definition tavily_down_world :: world where
  "tavily_down_world =
     sample_world\<lparr>tavily_search := (\<lambda>q. Inl (PyErr OtherError ''search unavailable''))\<rparr>"

text \<open>No provider knows a name, and the domain is \<open>".com"\<close>.\<close>

definition nameless_world :: world where
  "nameless_world =
     sample_world\<lparr>apollo_get := (\<lambda>d. Inr (ok_response (JObj []))),
                  coresignal_get := (\<lambda>site. Inr (ok_response (JObj [])))\<rparr>"

definition dotcom_researcher :: researcher where
  "dotcom_researcher =
     \<lparr>domain = ''.com'',
      apollo_api = \<lparr>apollo_domain = ''.com''\<rparr>,
      coresignal_api = \<lparr>website = ''.com'', website_slug = ''_com''\<rparr>,
      company_name_attr = JNull\<rparr>"

text \<open>Both enrichment services answer 401 with an error body.\<close>

definition unauthorized_body :: json where
  "unauthorized_body = JObj [(''error'', JStr ''Invalid access credentials.'')]"

definition unauthorized_world :: world where
  "unauthorized_world =
     sample_world\<lparr>apollo_get := (\<lambda>d. Inr \<lparr>status_code = 401, json_body = Inr unauthorized_body\<rparr>),
                  coresignal_get :=
                    (\<lambda>site. Inr \<lparr>status_code = 401, json_body = Inr unauthorized_body\<rparr>)\<rparr>"

text \<open>A cache directory whose two files for \<open>example.com\<close> are damaged: the text of one
  is no JSON, the other cannot be read.\<close>

definition corrupt_cache :: filesystem where
  "corrupt_cache =
     [apollo_file_path sample_world (apollo_api sample_researcher)
        \<mapsto> Inl (PyErr JSONDecodeError []),
      coresignal_file_path sample_world (coresignal_api sample_researcher)
        \<mapsto> Inl (PyErr IOError [])]"

text \<open>A cache directory whose two files for \<open>example.com\<close> hold bytes that are no UTF-8
  text: \<open>json.load\<close> raises \<open>UnicodeDecodeError\<close> while it reads the file.\<close>

definition undecodable_cache :: filesystem where
  "undecodable_cache =
     [apollo_file_path sample_world (apollo_api sample_researcher)
        \<mapsto> Inl (PyErr UnicodeDecodeError []),
      coresignal_file_path sample_world (coresignal_api sample_researcher)
        \<mapsto> Inl (PyErr UnicodeDecodeError [])]"

text \<open>Both enrichment services know the company of \<open>example.com\<close> under its katakana
  name.\<close>

definition katakana_world :: world where
  "katakana_world =
     sample_world\<lparr>apollo_get :=
                    (\<lambda>d. Inr (ok_response
                           (JObj [(''organization'', JObj [(''name'', JStr katakana_name)])]))),
                  coresignal_get :=
                    (\<lambda>site. Inr (ok_response (JObj [(''company_name'', JStr katakana_name)])))\<rparr>"

definition sample_upload_result :: json where
  "sample_upload_result =
     JObj [(''id'', JStr ''file-1''), (''name'', JStr ''report.pdf''),
           (''webViewLink'', JStr ''https://drive.example/file-1''), (''size'', JStr ''2048'')]"

definition sample_services :: services where
  "sample_services =
     \<lparr>GOOGLE_DRIVE_AVAILABLE = True,
      EMAIL_SERVICE_AVAILABLE = True,
      md_stem = ''/tmp/tmpa1'',
      pdf_stem = ''/tmp/tmpb2'',
      pandoc = (\<lambda>text. None),
      pdf_size = 2048,
      drive_upload = (\<lambda>folder name. Inr sample_upload_result),
      new_EmailService = Inr \<lparr>email_user = Some ''reports'', email_password = Some ''secret''\<rparr>,
      smtp_send = (\<lambda>to_email attached. None),
      timestamp_now = ''20240101_120000'',
      isoformat_now = ''2024-01-01T12:00:00''\<rparr>"

text \<open>A request with an email address and an upload, and one with neither.\<close>

definition email_and_upload_request :: MultiSourceCompanyResearchRequest where
  "email_and_upload_request =
     \<lparr>email = Some ''reader@example.org'', upload_to_drive = True,
      upload_to_drive_folder_id = Some ''folder-1'',
      request_domain = ''example.com'', return_data = False\<rparr>"

definition download_request :: MultiSourceCompanyResearchRequest where
  "download_request =
     \<lparr>email = None, upload_to_drive = False, upload_to_drive_folder_id = None,
      request_domain = ''example.com'', return_data = False\<rparr>"

definition coresignal_download_request :: CoreSignalCompanyResearchRequest where
  "coresignal_download_request =
     \<lparr>email = None, upload_to_drive = False, upload_to_drive_folder_id = None,
      request_website = ''example.com''\<rparr>"

text \<open>\<open>CoreSignalMultiSourceAPI("https://example.com")\<close>, the client of the CoreSignal
  handler for the website \<open>example.com\<close>.\<close>

definition sample_client :: CoreSignalMultiSourceAPI where
  "sample_client = \<lparr>website = ''https://example.com'', website_slug = ''example_com''\<rparr>"

text \<open>What \<open>research_company\<close> returns for \<open>example.com\<close> in the sample world.\<close>

definition sample_result :: research_result where
  "sample_result =
     \<lparr>result_company_name = JStr ''Example Inc'',
      result_domain = ''example.com'',
      report = ''# Report'',
      raw_apollo_data = sample_apollo_payload,
      raw_tavily_customers = [],
      raw_coresignal_data =
        JObj [(''company_name'', JStr ''Example''),
              (''competitors'', JArr (descending_by_similarity eight_competitors)),
              (''company_updates'', JArr [])]\<rparr>"

text \<open>What \<open>research_company\<close> returns for \<open>example.com\<close> in the world of the katakana
  name.\<close>

definition katakana_result :: research_result where
  "katakana_result =
     \<lparr>result_company_name = JStr katakana_name,
      result_domain = ''example.com'',
      report = ''# Report'',
      raw_apollo_data = JObj [(''organization'', JObj [(''name'', JStr katakana_name)])],
      raw_tavily_customers = [],
      raw_coresignal_data = JObj [(''company_name'', JStr katakana_name)]\<rparr>"

section \<open>Cache files and network calls\<close>

lemma path_join_suffix: "\<exists>x. path_join a (b @ s) = x @ s"
proof -
  have "path_join a (b @ s) = b @ s \<or> path_join a (b @ s) = (a @ b) @ s
        \<or> path_join a (b @ s) = (a @ ''/'' @ b) @ s"
    by (simp add: path_join_def)
  then show ?thesis by blast
qed

lemma apollo_path_suffix: "\<exists>x. apollo_file_path w a = x @ ''_apollo_api_response.json''"
  unfolding apollo_file_path_def by (rule path_join_suffix)

lemma coresignal_path_suffix:
  "\<exists>x. coresignal_file_path w c = x @ ''_coresignal_multisource_api_response.json''"
  unfolding coresignal_file_path_def by (rule path_join_suffix)

lemma same_length_suffix_eq: "x @ s = y @ t \<Longrightarrow> length s = length t \<Longrightarrow> s = t"
  by simp

text \<open>The two clients never share a cache file: the names end differently.\<close>

lemma cache_paths_differ: "apollo_file_path w a \<noteq> coresignal_file_path w c"
proof
  assume eq: "apollo_file_path w a = coresignal_file_path w c"
  obtain x where x: "apollo_file_path w a = x @ ''_apollo_api_response.json''"
    using apollo_path_suffix by blast
  obtain y where y: "coresignal_file_path w c = y @ ''_coresignal_multisource_api_response.json''"
    using coresignal_path_suffix by blast
  have "x @ ''_apollo_api_response.json'' = y @ ''_coresignal_multisource_api_response.json''"
    using eq x y by simp
  then have "(x @ ''_apoll'') @ ''o_api_response.json''
             = (y @ ''_coresignal_multisourc'') @ ''e_api_response.json''"
    by simp
  then have "''o_api_response.json'' = ''e_api_response.json''"
    by (rule same_length_suffix_eq) simp
  then show False by simp
qed

lemma apollo_writes_own_file:
  "p \<noteq> apollo_file_path w a \<Longrightarrow> fst (snd (organization_enrichment_api w a fs)) p = fs p"
  by (auto simp: organization_enrichment_api_def apollo_fresh_call_def Let_def
           split: option.splits sum.splits)

lemma coresignal_writes_own_file:
  "p \<noteq> coresignal_file_path w c \<Longrightarrow> fst (snd (company_multi_source_enrich w c fs)) p = fs p"
  by (auto simp: company_multi_source_enrich_def coresignal_fresh_call_def Let_def
           split: option.splits sum.splits)

lemma coresignal_reads_own_file:
  assumes "fs' (coresignal_file_path w c) = fs (coresignal_file_path w c)"
  shows "fst (company_multi_source_enrich w c fs') = fst (company_multi_source_enrich w c fs)"
    and "snd (snd (company_multi_source_enrich w c fs'))
           = snd (snd (company_multi_source_enrich w c fs))"
  using assms
  by (auto simp: company_multi_source_enrich_def coresignal_fresh_call_def Let_def
           split: option.splits sum.splits)

text \<open>So the CoreSignal fetch gives the same result and makes the same calls whether it
  runs before or after the Apollo fetch.\<close>

lemma coresignal_after_apollo:
  "fst (fetch_coresignal_data w self (fst (snd (fetch_apollo_data w self fs))))
     = fst (fetch_coresignal_data w self fs)"
  "snd (snd (fetch_coresignal_data w self (fst (snd (fetch_apollo_data w self fs)))))
     = snd (snd (fetch_coresignal_data w self fs))"
  unfolding fetch_coresignal_data_def fetch_apollo_data_def
  by (rule coresignal_reads_own_file, rule apollo_writes_own_file,
      rule cache_paths_differ[symmetric])+

lemma apollo_calls_only_apollo:
  "calls_to Tavily (snd (snd (organization_enrichment_api w a fs))) = []"
  "calls_to CoreSignal (snd (snd (organization_enrichment_api w a fs))) = []"
  by (auto simp: calls_to_def organization_enrichment_api_def apollo_fresh_call_def Let_def
           split: option.splits sum.splits)

lemma coresignal_calls_only_coresignal:
  "calls_to Tavily (snd (snd (company_multi_source_enrich w c fs))) = []"
  "calls_to Apollo (snd (snd (company_multi_source_enrich w c fs))) = []"
  by (auto simp: calls_to_def company_multi_source_enrich_def coresignal_fresh_call_def Let_def
           split: option.splits sum.splits)

lemma calls_to_append: "calls_to p (xs @ ys) = calls_to p xs @ calls_to p ys"
  by (simp add: calls_to_def)

section \<open>The join of the three fetches\<close>

lemma first_raised_mem: "xs \<noteq> [] \<Longrightarrow> first_raised xs \<in> snd ` set xs"
  by (induction xs rule: first_raised.induct) auto

lemma gather_Inl:
  assumes "gather finished ra rt rc = Inl e"
  shows "ra = Inl e \<or> rt = Inl e \<or> rc = Inl e"
proof -
  let ?fs = "failed (finished Apollo) ra @ failed (finished Tavily) rt
             @ failed (finished CoreSignal) rc"
  from assms have e: "e = first_raised ?fs" and ne: "?fs \<noteq> []"
    by (auto simp: gather_def split: sum.splits)
  from first_raised_mem[OF ne] e have "e \<in> snd ` set ?fs" by simp
  then show ?thesis
    by (cases ra; cases rt; cases rc) auto
qed

lemma gather_fails:
  assumes "isl ra \<or> isl rt \<or> isl rc"
  shows "\<exists>e. gather finished ra rt rc = Inl e"
  using assms by (auto simp: gather_def isl_def split: sum.splits)

lemma gather_Inr:
  "gather finished ra rt rc = Inr (a, t, c) \<longleftrightarrow> ra = Inr a \<and> rt = Inr t \<and> rc = Inr c"
  by (auto simp: gather_def split: sum.splits)

text \<open>\<open>research_company\<close> in terms of the three fetches on the files it starts from.\<close>

lemma research_company_unfold:
  assumes a: "fetch_apollo_data w self fs = (ra, fs1, ca)"
    and t: "fetch_tavily_data w self = (rt, ct)"
    and c: "fetch_coresignal_data w self fs1 = (rc, fs2, cc)"
  shows "rc = fst (fetch_coresignal_data w self fs)"
    and "cc = snd (snd (fetch_coresignal_data w self fs))"
    and "net_calls (research_company w finished self fs) = ca @ ct @ cc"
proof -
  show "rc = fst (fetch_coresignal_data w self fs)"
    using coresignal_after_apollo(1)[of w self fs] a c by simp
  show "cc = snd (snd (fetch_coresignal_data w self fs))"
    using coresignal_after_apollo(2)[of w self fs] a c by simp
  show "net_calls (research_company w finished self fs) = ca @ ct @ cc"
    by (simp add: research_company_def a t c split: sum.splits prod.splits)
qed

lemma research_company_net_calls:
  "net_calls (research_company w finished self fs)
     = snd (snd (fetch_apollo_data w self fs)) @ snd (fetch_tavily_data w self)
       @ snd (snd (fetch_coresignal_data w self fs))"
proof -
  obtain ra fs1 ca where a: "fetch_apollo_data w self fs = (ra, fs1, ca)"
    by (cases "fetch_apollo_data w self fs") auto
  obtain rt ct where t: "fetch_tavily_data w self = (rt, ct)"
    by (cases "fetch_tavily_data w self") auto
  obtain rc fs2 cc where c: "fetch_coresignal_data w self fs1 = (rc, fs2, cc)"
    by (cases "fetch_coresignal_data w self fs1") auto
  from research_company_unfold(2,3)[OF a t c] a t show ?thesis by simp
qed

lemma research_company_gather_Inl:
  assumes "gather finished (fst (fetch_apollo_data w self fs)) (fst (fetch_tavily_data w self))
             (fst (fetch_coresignal_data w self fs)) = Inl e"
  shows "returned (research_company w finished self fs) = Inl e"
    and "llm_calls (research_company w finished self fs) = []"
proof -
  obtain ra fs1 ca where a: "fetch_apollo_data w self fs = (ra, fs1, ca)"
    by (cases "fetch_apollo_data w self fs") auto
  obtain rt ct where t: "fetch_tavily_data w self = (rt, ct)"
    by (cases "fetch_tavily_data w self") auto
  obtain rc fs2 cc where c: "fetch_coresignal_data w self fs1 = (rc, fs2, cc)"
    by (cases "fetch_coresignal_data w self fs1") auto
  from assms a t research_company_unfold(1)[OF a t c]
  have g: "gather finished ra rt rc = Inl e" by simp
  show "returned (research_company w finished self fs) = Inl e"
    by (simp add: research_company_def a t c g)
  show "llm_calls (research_company w finished self fs) = []"
    by (simp add: research_company_def a t c g)
qed

text \<open>A run that returns a result: the three fetches succeeded, the name was set, the
  synthesizer returned the report.\<close>

lemma research_company_returns:
  assumes "returned (research_company w finished self fs) = Inr res"
  shows "\<exists>a t c self' md c'.
           fst (fetch_apollo_data w self fs) = Inr a
         \<and> fst (fetch_tavily_data w self) = Inr t
         \<and> fst (fetch_coresignal_data w self fs) = Inr c
         \<and> set_company_name_from_data self a c = Inr self'
         \<and> generate_llm_company_report w self' a c t
               = (Inr md, c', llm_calls (research_company w finished self fs))
         \<and> res = \<lparr>result_company_name = company_name self', result_domain = domain self',
                   report = md, raw_apollo_data = a, raw_tavily_customers = t,
                   raw_coresignal_data = c'\<rparr>"
proof -
  obtain ra fs1 ca where a: "fetch_apollo_data w self fs = (ra, fs1, ca)"
    by (cases "fetch_apollo_data w self fs") auto
  obtain rt ct where t: "fetch_tavily_data w self = (rt, ct)"
    by (cases "fetch_tavily_data w self") auto
  obtain rc fs2 cc where c: "fetch_coresignal_data w self fs1 = (rc, fs2, cc)"
    by (cases "fetch_coresignal_data w self fs1") auto
  have rc: "rc = fst (fetch_coresignal_data w self fs)"
    by (rule research_company_unfold(1)[OF a t c])
  from assms obtain x y z where g: "gather finished ra rt rc = Inr (x, y, z)"
    by (auto simp: research_company_def a t c split: sum.splits prod.splits)
  then have r: "ra = Inr x" "rt = Inr y" "rc = Inr z"
    by (simp_all add: gather_Inr)
  from assms g obtain self' where s: "set_company_name_from_data self x z = Inr self'"
    by (auto simp: research_company_def a t c split: sum.splits prod.splits)
  from assms g s obtain md z' where
    l: "generate_llm_company_report w self' x z y
          = (Inr md, z', llm_calls (research_company w finished self fs))"
    and res: "res = \<lparr>result_company_name = company_name self', result_domain = domain self',
                   report = md, raw_apollo_data = x, raw_tavily_customers = y,
                   raw_coresignal_data = z'\<rparr>"
    by (auto simp: research_company_def a t c split: sum.splits prod.splits)
  from r rc a t s l res show ?thesis by auto
qed

text \<open>
  C1. If any one of the three provider fetches (Apollo enrichment, CoreSignal
  multi-source, Tavily customer search) fails, \<open>research_company\<close> raises the error of a
  failed provider (of the one that failed, when only one did), no prompt is sent to the
  language model, and no result is returned.
\<close>

theorem fan_out_short_circuit:
  assumes "isl (fst (fetch_apollo_data w self fs)) \<or> isl (fst (fetch_tavily_data w self))
           \<or> isl (fst (fetch_coresignal_data w self fs))"
  shows "\<exists>e. returned (research_company w finished self fs) = Inl e
           \<and> (fst (fetch_apollo_data w self fs) = Inl e \<or> fst (fetch_tavily_data w self) = Inl e
                \<or> fst (fetch_coresignal_data w self fs) = Inl e)
           \<and> llm_calls (research_company w finished self fs) = []"
proof -
  from gather_fails[OF assms] obtain e where
    g: "gather finished (fst (fetch_apollo_data w self fs)) (fst (fetch_tavily_data w self))
          (fst (fetch_coresignal_data w self fs)) = Inl e" by blast
  from gather_Inl[OF g] research_company_gather_Inl[OF g] show ?thesis by blast
qed

text \<open>On \<open>example.com\<close> with the web search down and both enrichment services up, the
  run raises the search error and sends no prompt.\<close>

theorem fan_out_short_circuit_witness:
  "isl (fst (fetch_tavily_data tavily_down_world sample_researcher))
   \<and> returned (research_company tavily_down_world (\<lambda>p. 0) sample_researcher Map.empty)
       = Inl (PyErr OtherError ''search unavailable'')
   \<and> llm_calls (research_company tavily_down_world (\<lambda>p. 0) sample_researcher Map.empty) = []"
proof -
  have t: "fst (fetch_tavily_data tavily_down_world sample_researcher)
             = Inl (PyErr OtherError ''search unavailable'')"
    by code_simp
  have a: "\<not> isl (fst (fetch_apollo_data tavily_down_world sample_researcher Map.empty))"
    by code_simp
  have c: "\<not> isl (fst (fetch_coresignal_data tavily_down_world sample_researcher Map.empty))"
    by code_simp
  from t have h: "isl (fst (fetch_tavily_data tavily_down_world sample_researcher))" by simp
  from fan_out_short_circuit[of tavily_down_world sample_researcher Map.empty "\<lambda>p. 0"] h
  obtain e where
    e: "returned (research_company tavily_down_world (\<lambda>p. 0) sample_researcher Map.empty) = Inl e"
       "fst (fetch_apollo_data tavily_down_world sample_researcher Map.empty) = Inl e
        \<or> fst (fetch_tavily_data tavily_down_world sample_researcher) = Inl e
        \<or> fst (fetch_coresignal_data tavily_down_world sample_researcher Map.empty) = Inl e"
       "llm_calls (research_company tavily_down_world (\<lambda>p. 0) sample_researcher Map.empty) = []"
    by blast
  from e(2) a c t have "e = PyErr OtherError ''search unavailable''" by auto
  with e h show ?thesis by simp
qed

section \<open>The company name\<close>

lemma init_fresh:
  assumes "MultiSourceResearcher_init w d = Inr self"
  shows "domain self = d" and "company_name_attr self = JNull"
    and "apollo_domain (apollo_api self) = d" and "website (coresignal_api self) = d"
  using assms
  by (auto simp: MultiSourceResearcher_init_def ApolloOrganizationAPI_init_def
                 CoreSignalMultiSourceAPI_init_def
           split: sum.splits option.splits if_splits)


lemma organization_name_present:
  assumes "organization_name a = Inr n"
  shows "present_field a [''organization'', ''name''] = (if truthy n then Some n else None)"
proof (cases "truthy a")
  case False
  with assms have "n = a" by (simp add: organization_name_def)
  with False show ?thesis by (cases a) auto
next
  case True
  with assms obtain org where org: "py_get a ''organization'' (JObj []) = Inr org"
    and n: "py_get org ''name'' JNull = Inr n"
    by (auto simp: organization_name_def split: sum.splits)
  from org obtain kvs where a: "a = JObj kvs" by (cases a) auto
  from n obtain kvs' where o: "org = JObj kvs'" by (cases org) auto
  from org n a o show ?thesis by (auto split: option.splits)
qed

lemma and_get_present:
  assumes "and_get data k = Inr n"
  shows "present_field data [k] = (if truthy n then Some n else None)"
proof (cases "truthy data")
  case False
  with assms have "n = data" by (simp add: and_get_def)
  with False show ?thesis by (cases data) auto
next
  case True
  with assms have n: "py_get data k JNull = Inr n" by (simp add: and_get_def)
  then obtain kvs where "data = JObj kvs" by (cases data) auto
  with n show ?thesis by (auto split: option.splits)
qed

lemma truthy_not_null: "truthy n \<Longrightarrow> n \<noteq> JNull"
  by auto

text \<open>The code's three tests pick the name the priority order describes.\<close>

lemma set_company_name_priority:
  assumes fresh: "company_name_attr self = JNull"
    and set: "set_company_name_from_data self a c = Inr self'"
  shows "company_name self' = canonical_name_by_priority (domain self) a c"
proof -
  from set obtain n1 where n1: "organization_name a = Inr n1"
    by (auto simp: set_company_name_from_data_def split: sum.splits)
  note p1 = organization_name_present[OF n1]
  show ?thesis
  proof (cases "truthy n1")
    case True
    with set n1 have "self' = self\<lparr>company_name_attr := n1\<rparr>"
      by (simp add: set_company_name_from_data_def)
    with True p1 show ?thesis
      by (auto simp: company_name_def canonical_name_by_priority_def)
  next
    case f1: False
    with set n1 obtain n2 where n2: "and_get c ''company_name'' = Inr n2"
      by (auto simp: set_company_name_from_data_def split: sum.splits)
    note p2 = and_get_present[OF n2]
    show ?thesis
    proof (cases "truthy n2")
      case True
      with set n1 f1 n2 have "self' = self\<lparr>company_name_attr := n2\<rparr>"
        by (simp add: set_company_name_from_data_def)
      with True f1 p1 p2 show ?thesis
        by (auto simp: company_name_def canonical_name_by_priority_def)
    next
      case f2: False
      with set n1 f1 n2 obtain n3 where n3: "and_get a ''name'' = Inr n3"
        by (auto simp: set_company_name_from_data_def split: sum.splits)
      note p3 = and_get_present[OF n3]
      show ?thesis
      proof (cases "truthy n3")
        case True
        with set n1 f1 n2 f2 n3 have "self' = self\<lparr>company_name_attr := n3\<rparr>"
          by (simp add: set_company_name_from_data_def)
        with True f1 f2 p1 p2 p3 show ?thesis
          by (auto simp: company_name_def canonical_name_by_priority_def)
      next
        case False
        with set n1 f1 n2 f2 n3 have "self' = self"
          by (simp add: set_company_name_from_data_def)
        with False f1 f2 p1 p2 p3 fresh show ?thesis
          by (auto simp: company_name_def canonical_name_by_priority_def)
      qed
    qed
  qed
qed

lemma set_company_name_domain:
  "set_company_name_from_data self a c = Inr self' \<Longrightarrow> domain self' = domain self"
  by (auto simp: set_company_name_from_data_def split: sum.splits if_splits)

lemma length_title_from: "length (title_from b s) = length s"
  by (induction s arbitrary: b) auto

lemma fallback_name_empty_iff:
  "fallback_name d = [] \<longleftrightarrow> str_replace ''www.'' [] (str_replace ''.com'' [] d) = []"
  unfolding fallback_name_def str_title_def
  by (metis length_title_from length_0_conv)

text \<open>
  C2, as stated: with no name field in any payload the canonical name is a non-empty
  fallback derived from the domain. For the domain \<open>".com"\<close> and two empty payloads the
  research result carries the empty name.
\<close>

theorem canonical_name_counterexample:
  "MultiSourceResearcher_init nameless_world ''.com'' = Inr dotcom_researcher
   \<and> map_option result_company_name
        (result_of (research_company nameless_world (\<lambda>p. 0) dotcom_researcher Map.empty))
       = Some (JStr [])"
  by code_simp

text \<open>
  C2, amended. For every combination of provider payloads from which research returns
  a result, the canonical company name in the result is the Apollo payload's
  \<open>organization.name\<close> if present, else the CoreSignal payload's \<open>company_name\<close> if
  present, else the Apollo payload's top-level \<open>name\<close> if present (present: the field is
  there with a value that is not empty), else the fallback derived from the domain
  (\<open>".com"\<close> removed, then \<open>"www."\<close>, then title-cased). The fallback is empty exactly
  when nothing of the domain is left after the two removals; for \<open>"example.com"\<close> it is
  \<open>"Example"\<close>.
\<close>

theorem canonical_name_resolution:
  assumes init: "MultiSourceResearcher_init w d = Inr self"
    and ret: "returned (research_company w finished self fs) = Inr res"
  shows "(\<exists>a c. fst (fetch_apollo_data w self fs) = Inr a
              \<and> fst (fetch_coresignal_data w self fs) = Inr c
              \<and> result_company_name res = canonical_name_by_priority d a c)
         \<and> (fallback_name d = [] \<longleftrightarrow> str_replace ''www.'' [] (str_replace ''.com'' [] d) = [])
         \<and> fallback_name ''example.com'' = ''Example''"
proof -
  from research_company_returns[OF ret] obtain a t c self' md c' where
    f: "fst (fetch_apollo_data w self fs) = Inr a" "fst (fetch_coresignal_data w self fs) = Inr c"
    and s: "set_company_name_from_data self a c = Inr self'"
    and r: "res = \<lparr>result_company_name = company_name self', result_domain = domain self',
                   report = md, raw_apollo_data = a, raw_tavily_customers = t,
                   raw_coresignal_data = c'\<rparr>"
    by blast
  from set_company_name_priority[OF init_fresh(2)[OF init] s] init_fresh(1)[OF init] r
  have "result_company_name res = canonical_name_by_priority d a c" by simp
  moreover have "fallback_name ''example.com'' = ''Example''" by code_simp
  ultimately show ?thesis using f fallback_name_empty_iff by blast
qed

text \<open>For \<open>example.com\<close> and two payloads without any name, the result carries
  \<open>"Example"\<close>.\<close>

theorem canonical_name_resolution_witness:
  "MultiSourceResearcher_init nameless_world ''example.com'' = Inr sample_researcher
   \<and> map_option result_company_name
        (result_of (research_company nameless_world (\<lambda>p. 0) sample_researcher Map.empty))
       = Some (JStr ''Example'')"
proof -
  let ?run = "research_company nameless_world (\<lambda>p. 0) sample_researcher Map.empty"
  have init: "MultiSourceResearcher_init nameless_world ''example.com'' = Inr sample_researcher"
    by code_simp
  have "\<not> isl (returned ?run)"
    by code_simp
  then obtain res where ret: "returned ?run = Inr res"
    by (cases "returned ?run") auto
  have fa: "fst (fetch_apollo_data nameless_world sample_researcher Map.empty) = Inr (JObj [])"
    by code_simp
  have fc: "fst (fetch_coresignal_data nameless_world sample_researcher Map.empty) = Inr (JObj [])"
    by code_simp
  have cn: "canonical_name_by_priority ''example.com'' (JObj []) (JObj []) = JStr ''Example''"
    by code_simp
  from canonical_name_resolution[OF init ret] fa fc cn
  have "result_company_name res = JStr ''Example''" by auto
  with ret init show ?thesis by (simp add: result_of_def)
qed

section \<open>The web-search query\<close>



section \<open>The provider caches\<close>

lemma apollo_warm_cache:
  "fs (apollo_file_path w a) = Some (Inr r)
   \<Longrightarrow> organization_enrichment_api w a fs = (Inr r, fs, [])"
  by (simp add: organization_enrichment_api_def)

lemma coresignal_warm_cache:
  "fs (coresignal_file_path w c) = Some (Inr r)
   \<Longrightarrow> company_multi_source_enrich w c fs = (Inr r, fs, [])"
  by (simp add: company_multi_source_enrich_def)

lemma apollo_success_leaves_file:
  "fst (organization_enrichment_api w a fs) = Inr r
   \<Longrightarrow> fst (snd (organization_enrichment_api w a fs)) (apollo_file_path w a) = Some (Inr r)"
  by (auto simp: organization_enrichment_api_def apollo_fresh_call_def Let_def
           split: option.splits sum.splits if_splits)

lemma coresignal_success_leaves_file:
  "fst (company_multi_source_enrich w c fs) = Inr r
   \<Longrightarrow> fst (snd (company_multi_source_enrich w c fs)) (coresignal_file_path w c) = Some (Inr r)"
  by (auto simp: company_multi_source_enrich_def coresignal_fresh_call_def Let_def
           split: option.splits sum.splits if_splits)

lemma research_company_files_after:
  "files_after (research_company w finished self fs)
     = fst (snd (fetch_coresignal_data w self (fst (snd (fetch_apollo_data w self fs)))))"
  by (simp add: research_company_def split: sum.splits prod.splits)

lemma tavily_called_once: "length (calls_to Tavily (snd (fetch_tavily_data w self))) = 1"
  by (simp add: fetch_tavily_data_def get_major_customers_async_def Let_def calls_to_def)

text \<open>
  C4, as stated: with warm caches a second research call performs no network call to any
  of the three providers, the web search included. The second of two research calls
  for \<open>example.com\<close> reads both enrichment payloads from their files and sends the
  Tavily query again.
\<close>

theorem warm_cache_counterexample:
  "calls_to Tavily
     (net_calls (research_company sample_world (\<lambda>p. 0) sample_researcher
        (files_after (research_company sample_world (\<lambda>p. 0) sample_researcher Map.empty))))
   = [TavilySearch ''Who are the major/enterprise customers of Example?'']"
  by code_simp

text \<open>
  C4, amended. Once a cache file holding a response exists for the enrichment (Apollo)
  or the multi-source (CoreSignal) provider, a research call performs no network call
  to that provider; a research call in which that provider's fetch succeeds leaves such
  a file. The web-search (Tavily) provider has no cache: every research call sends its
  query once.
\<close>

theorem warm_cache_no_network_call:
  "(fs (apollo_file_path w (apollo_api self)) = Some (Inr a)
      \<longrightarrow> calls_to Apollo (net_calls (research_company w finished self fs)) = [])
   \<and> (fs (coresignal_file_path w (coresignal_api self)) = Some (Inr c)
      \<longrightarrow> calls_to CoreSignal (net_calls (research_company w finished self fs)) = [])
   \<and> (fst (fetch_apollo_data w self fs) = Inr a
      \<longrightarrow> files_after (research_company w finished self fs)
            (apollo_file_path w (apollo_api self)) = Some (Inr a))
   \<and> (fst (fetch_coresignal_data w self fs) = Inr c
      \<longrightarrow> files_after (research_company w finished self fs)
            (coresignal_file_path w (coresignal_api self)) = Some (Inr c))
   \<and> length (calls_to Tavily (net_calls (research_company w finished self fs))) = 1"
proof (intro conjI impI)
  let ?run = "research_company w finished self fs"
  have tav_a: "calls_to Apollo (snd (fetch_tavily_data w self)) = []"
    and tav_c: "calls_to CoreSignal (snd (fetch_tavily_data w self)) = []"
    by (simp_all add: fetch_tavily_data_def get_major_customers_async_def Let_def calls_to_def)
  {
    assume "fs (apollo_file_path w (apollo_api self)) = Some (Inr a)"
    then have "snd (snd (fetch_apollo_data w self fs)) = []"
      by (simp add: fetch_apollo_data_def apollo_warm_cache)
    then show "calls_to Apollo (net_calls ?run) = []"
      by (simp add: research_company_net_calls calls_to_append tav_a fetch_coresignal_data_def
                    coresignal_calls_only_coresignal)
  }
  {
    assume "fs (coresignal_file_path w (coresignal_api self)) = Some (Inr c)"
    then have "snd (snd (fetch_coresignal_data w self fs)) = []"
      by (simp add: fetch_coresignal_data_def coresignal_warm_cache)
    then show "calls_to CoreSignal (net_calls ?run) = []"
      by (simp add: research_company_net_calls calls_to_append tav_c fetch_apollo_data_def
                    apollo_calls_only_apollo)
  }
  {
    assume "fst (fetch_apollo_data w self fs) = Inr a"
    then have "fst (snd (fetch_apollo_data w self fs)) (apollo_file_path w (apollo_api self))
                 = Some (Inr a)"
      by (simp add: fetch_apollo_data_def apollo_success_leaves_file)
    then show "files_after ?run (apollo_file_path w (apollo_api self)) = Some (Inr a)"
      by (simp add: research_company_files_after fetch_coresignal_data_def
                    coresignal_writes_own_file cache_paths_differ)
  }
  {
    assume "fst (fetch_coresignal_data w self fs) = Inr c"
    then have "fst (fetch_coresignal_data w self (fst (snd (fetch_apollo_data w self fs)))) = Inr c"
      by (simp add: coresignal_after_apollo)
    then show "files_after ?run (coresignal_file_path w (coresignal_api self)) = Some (Inr c)"
      by (simp add: research_company_files_after fetch_coresignal_data_def
                    coresignal_success_leaves_file)
  }
  have "calls_to Tavily (net_calls ?run)
          = calls_to Tavily (snd (snd (fetch_apollo_data w self fs)))
            @ calls_to Tavily (snd (fetch_tavily_data w self))
            @ calls_to Tavily (snd (snd (fetch_coresignal_data w self fs)))"
    by (simp only: research_company_net_calls calls_to_append)
  then show "length (calls_to Tavily (net_calls ?run)) = 1"
    by (simp add: fetch_apollo_data_def fetch_coresignal_data_def apollo_calls_only_apollo
                  coresignal_calls_only_coresignal tavily_called_once)
qed

text \<open>After a first research call for \<open>example.com\<close>, both payloads are on file, and the
  second call makes no Apollo and no CoreSignal request.\<close>

theorem warm_cache_no_network_call_witness:
  "files_after (research_company sample_world (\<lambda>p. 0) sample_researcher Map.empty)
     (apollo_file_path sample_world (apollo_api sample_researcher)) = Some (Inr sample_apollo_payload)
   \<and> files_after (research_company sample_world (\<lambda>p. 0) sample_researcher Map.empty)
     (coresignal_file_path sample_world (coresignal_api sample_researcher))
       = Some (Inr sample_coresignal_payload)
   \<and> calls_to Apollo
       (net_calls (research_company sample_world (\<lambda>p. 0) sample_researcher
          (files_after (research_company sample_world (\<lambda>p. 0) sample_researcher Map.empty)))) = []
   \<and> calls_to CoreSignal
       (net_calls (research_company sample_world (\<lambda>p. 0) sample_researcher
          (files_after (research_company sample_world (\<lambda>p. 0) sample_researcher Map.empty)))) = []"
proof -
  let ?fs = "files_after (research_company sample_world (\<lambda>p. 0) sample_researcher Map.empty)"
  have fa: "fst (fetch_apollo_data sample_world sample_researcher Map.empty)
              = Inr sample_apollo_payload"
    by code_simp
  have fc: "fst (fetch_coresignal_data sample_world sample_researcher Map.empty)
              = Inr sample_coresignal_payload"
    by code_simp
  note first = warm_cache_no_network_call[of Map.empty sample_world sample_researcher
                 sample_apollo_payload "\<lambda>p. 0" sample_coresignal_payload]
  from first fa have wa: "?fs (apollo_file_path sample_world (apollo_api sample_researcher))
                            = Some (Inr sample_apollo_payload)" by blast
  from first fc have wc: "?fs (coresignal_file_path sample_world (coresignal_api sample_researcher))
                            = Some (Inr sample_coresignal_payload)" by blast
  note second = warm_cache_no_network_call[of ?fs sample_world sample_researcher
                  sample_apollo_payload "\<lambda>p. 0" sample_coresignal_payload]
  from second wa wc show ?thesis by blast
qed

text \<open>
  C7. On a cold cache each enrichment client should fail whenever the HTTP call
  returns a non-success status, and never hand the error payload on as a normal result.
  With both services answering 401 and an error body, the CoreSignal client raises
  \<open>HTTPError\<close>, while the Apollo client, which never looks at the status, returns the
  error body as the organization data and writes it to its cache file.
\<close>

theorem apollo_returns_error_payload:
  "fst (organization_enrichment_api unauthorized_world (apollo_api sample_researcher) Map.empty)
     = Inr unauthorized_body
   \<and> fst (snd (organization_enrichment_api unauthorized_world (apollo_api sample_researcher)
                 Map.empty))
       (apollo_file_path unauthorized_world (apollo_api sample_researcher))
     = Some (Inr unauthorized_body)
   \<and> fst (company_multi_source_enrich unauthorized_world (coresignal_api sample_researcher)
            Map.empty)
     = Inl (PyErr HTTPError [])"
  by code_simp

text \<open>
  The two exceptions that the cache read catches. If a provider's cache file exists but
  reading it raises \<open>IOError\<close>, or \<open>json.load\<close> raises \<open>JSONDecodeError\<close> on its text, the
  fetch does not fail on it: it makes the HTTP call of a cold cache, and with the
  response of that call it overwrites the cache file and returns the response.
\<close>

lemma corrupt_cache_falls_through:
  assumes "exc_class_of e = JSONDecodeError \<or> exc_class_of e = IOError"
  shows "(fs (apollo_file_path w a) = Some (Inl e)
            \<longrightarrow> fst (organization_enrichment_api w a fs)
                  = fst (organization_enrichment_api w a (fs(apollo_file_path w a := None)))
              \<and> snd (snd (organization_enrichment_api w a fs)) = [ApolloRequest (apollo_domain a)])
       \<and> (fs (apollo_file_path w a) = Some (Inl e)
            \<and> apollo_get w (apollo_domain a) = Inr resp \<and> json_body resp = Inr r
            \<and> writable w (apollo_file_path w a)
            \<longrightarrow> organization_enrichment_api w a fs
                  = (Inr r, fs(apollo_file_path w a \<mapsto> Inr r), [ApolloRequest (apollo_domain a)]))
       \<and> (fs (coresignal_file_path w c) = Some (Inl e)
            \<longrightarrow> fst (company_multi_source_enrich w c fs)
                  = fst (company_multi_source_enrich w c (fs(coresignal_file_path w c := None)))
              \<and> snd (snd (company_multi_source_enrich w c fs)) = [CoreSignalRequest (website c)])
       \<and> (fs (coresignal_file_path w c) = Some (Inl e)
            \<and> coresignal_get w (website c) = Inr resp \<and> raise_for_status resp = Inr ()
            \<and> json_body resp = Inr r \<and> writable w (coresignal_file_path w c)
            \<longrightarrow> company_multi_source_enrich w c fs
                  = (Inr r, fs(coresignal_file_path w c \<mapsto> Inr r),
                     [CoreSignalRequest (website c)]))"
proof -
  from assms have caught: "cache_read_caught e" by (auto simp: cache_read_caught_def)
  show ?thesis
    using caught
    by (auto simp: organization_enrichment_api_def apollo_fresh_call_def
                   company_multi_source_enrich_def coresignal_fresh_call_def Let_def
             split: sum.splits)
qed

text \<open>The Apollo file of \<open>example.com\<close> holds invalid JSON and the CoreSignal file cannot
  be read: both fetches return the fresh response and leave it in the file.\<close>

lemma corrupt_cache_falls_through_sample:
  "organization_enrichment_api sample_world (apollo_api sample_researcher) corrupt_cache
     = (Inr sample_apollo_payload,
        corrupt_cache(apollo_file_path sample_world (apollo_api sample_researcher)
                        \<mapsto> Inr sample_apollo_payload),
        [ApolloRequest ''example.com''])
   \<and> company_multi_source_enrich sample_world (coresignal_api sample_researcher) corrupt_cache
     = (Inr sample_coresignal_payload,
        corrupt_cache(coresignal_file_path sample_world (coresignal_api sample_researcher)
                        \<mapsto> Inr sample_coresignal_payload),
        [CoreSignalRequest ''example.com''])"
proof -
  let ?a = "apollo_api sample_researcher" and ?c = "coresignal_api sample_researcher"
  have d: "apollo_file_path sample_world ?a \<noteq> coresignal_file_path sample_world ?c"
    by (rule cache_paths_differ)
  have ca: "corrupt_cache (apollo_file_path sample_world ?a) = Some (Inl (PyErr JSONDecodeError []))"
    using d by (simp add: corrupt_cache_def)
  have cc: "corrupt_cache (coresignal_file_path sample_world ?c) = Some (Inl (PyErr IOError []))"
    by (simp add: corrupt_cache_def)
  have ga: "apollo_get sample_world (apollo_domain ?a) = Inr (ok_response sample_apollo_payload)"
    and gc: "coresignal_get sample_world (website ?c) = Inr (ok_response sample_coresignal_payload)"
    and wr: "writable sample_world (apollo_file_path sample_world ?a)"
            "writable sample_world (coresignal_file_path sample_world ?c)"
    and da: "apollo_domain ?a = ''example.com''" and dc: "website ?c = ''example.com''"
    by (simp_all add: sample_world_def sample_researcher_def)
  have ok: "json_body (ok_response sample_apollo_payload) = Inr sample_apollo_payload"
    "json_body (ok_response sample_coresignal_payload) = Inr sample_coresignal_payload"
    "raise_for_status (ok_response sample_coresignal_payload) = Inr ()"
    by (simp_all add: ok_response_def raise_for_status_def)
  have ea: "exc_class_of (PyErr JSONDecodeError []) = JSONDecodeError
            \<or> exc_class_of (PyErr JSONDecodeError []) = IOError" by simp
  have ec: "exc_class_of (PyErr IOError []) = JSONDecodeError
            \<or> exc_class_of (PyErr IOError []) = IOError" by simp
  from corrupt_cache_falls_through[OF ea, of corrupt_cache sample_world ?a
         "ok_response sample_apollo_payload" sample_apollo_payload ?c]
       ca ga ok wr da
  have A: "organization_enrichment_api sample_world ?a corrupt_cache
             = (Inr sample_apollo_payload,
                corrupt_cache(apollo_file_path sample_world ?a \<mapsto> Inr sample_apollo_payload),
                [ApolloRequest ''example.com''])"
    by simp
  from corrupt_cache_falls_through[OF ec, of corrupt_cache sample_world ?a
         "ok_response sample_coresignal_payload" sample_coresignal_payload ?c]
       cc gc ok wr dc
  have C: "company_multi_source_enrich sample_world ?c corrupt_cache
             = (Inr sample_coresignal_payload,
                corrupt_cache(coresignal_file_path sample_world ?c \<mapsto> Inr sample_coresignal_payload),
                [CoreSignalRequest ''example.com''])"
    by simp
  from A C show ?thesis by simp
qed

text \<open>
  C10. If a provider's cache file exists but is unreadable or holds invalid JSON, the
  fetch should not fail: it should fall through to a fresh HTTP call, overwrite the file
  and return the new response. A cache file whose bytes are no UTF-8 text is such a
  file, and \<open>json.load\<close> raises \<open>UnicodeDecodeError\<close> on it, which
  \<open>except (json.JSONDecodeError, IOError)\<close> does not catch: with both services up (on a
  cold cache both fetches return their payloads), both fetches fail on the damaged file,
  make no HTTP call, and leave the file as it is.
\<close>

theorem undecodable_cache_fails:
  "fst (organization_enrichment_api sample_world (apollo_api sample_researcher)
          undecodable_cache)
     = Inl (PyErr UnicodeDecodeError [])
   \<and> snd (snd (organization_enrichment_api sample_world (apollo_api sample_researcher)
                 undecodable_cache)) = []
   \<and> fst (snd (organization_enrichment_api sample_world (apollo_api sample_researcher)
                 undecodable_cache))
       (apollo_file_path sample_world (apollo_api sample_researcher))
     = Some (Inl (PyErr UnicodeDecodeError []))
   \<and> fst (company_multi_source_enrich sample_world (coresignal_api sample_researcher)
            undecodable_cache)
     = Inl (PyErr UnicodeDecodeError [])
   \<and> snd (snd (company_multi_source_enrich sample_world (coresignal_api sample_researcher)
                 undecodable_cache)) = []
   \<and> fst (snd (company_multi_source_enrich sample_world (coresignal_api sample_researcher)
                 undecodable_cache))
       (coresignal_file_path sample_world (coresignal_api sample_researcher))
     = Some (Inl (PyErr UnicodeDecodeError []))
   \<and> fst (organization_enrichment_api sample_world (apollo_api sample_researcher) Map.empty)
     = Inr sample_apollo_payload
   \<and> fst (company_multi_source_enrich sample_world (coresignal_api sample_researcher)
            Map.empty)
     = Inr sample_coresignal_payload"
proof -
  let ?a = "apollo_api sample_researcher" and ?c = "coresignal_api sample_researcher"
  have d: "apollo_file_path sample_world ?a \<noteq> coresignal_file_path sample_world ?c"
    by (rule cache_paths_differ)
  have ca: "undecodable_cache (apollo_file_path sample_world ?a)
              = Some (Inl (PyErr UnicodeDecodeError []))"
    using d by (simp add: undecodable_cache_def)
  have cc: "undecodable_cache (coresignal_file_path sample_world ?c)
              = Some (Inl (PyErr UnicodeDecodeError []))"
    by (simp add: undecodable_cache_def)
  have n: "\<not> cache_read_caught (PyErr UnicodeDecodeError [])"
    by (simp add: cache_read_caught_def)
  have A: "organization_enrichment_api sample_world ?a undecodable_cache
             = (Inl (PyErr UnicodeDecodeError []), undecodable_cache, [])"
    using ca n by (simp add: organization_enrichment_api_def)
  have C: "company_multi_source_enrich sample_world ?c undecodable_cache
             = (Inl (PyErr UnicodeDecodeError []), undecodable_cache, [])"
    using cc n by (simp add: company_multi_source_enrich_def)
  have fa: "fst (organization_enrichment_api sample_world ?a Map.empty)
              = Inr sample_apollo_payload"
    by code_simp
  have fc: "fst (company_multi_source_enrich sample_world ?c Map.empty)
              = Inr sample_coresignal_payload"
    by code_simp
  from ca cc fa fc show ?thesis by (simp add: A C)
qed

section \<open>The competitor list\<close>

lemma map_err_all:
  assumes "\<forall>x \<in> set xs. case f x of Inl e \<Rightarrow> False | Inr k \<Rightarrow> P k"
  shows "\<exists>ks. map_err f xs = Inr ks \<and> (\<forall>k \<in> set ks. P k)"
  using assms
proof (induction xs)
  case Nil
  show ?case by simp
next
  case (Cons x xs)
  from Cons.prems obtain k where k: "f x = Inr k" "P k"
    by (cases "f x") auto
  from Cons obtain ks where ks: "map_err f xs = Inr ks" "\<forall>k \<in> set ks. P k"
    by auto
  from k ks show ?case by simp
qed

lemma sort_competitors_numeric:
  assumes "numeric_scores cs"
  shows "sort_competitors w cs = Inr (descending_by_similarity cs)"
proof -
  from assms
  have "\<forall>x \<in> set cs. case similarity_key x of Inl e \<Rightarrow> False | Inr k \<Rightarrow> key_number k \<noteq> None"
    by (simp add: numeric_scores_def)
  from map_err_all[OF this] obtain ks where
    "map_err similarity_key cs = Inr ks" "\<forall>k \<in> set ks. key_number k \<noteq> None"
    by blast
  then show ?thesis by (simp add: sort_competitors_def)
qed


lemma descending_by_similarity_mset: "mset (descending_by_similarity cs) = mset cs"
  by (simp add: descending_by_similarity_def)



lemma competitors_of_store:
  assumes "py_get cd ''competitors'' (JArr []) = Inr (JArr cs)"
    and "cs = [] \<longrightarrow> sorted_cs = []"
  shows "competitors_of (store_competitors cd sorted_cs) = sorted_cs"
proof -
  from assms obtain kvs where cd: "cd = JObj kvs" by (cases cd) auto
  show ?thesis
  proof (cases "map_of kvs ''competitors''")
    case None
    with assms cd have "cs = []" by simp
    with assms have "sorted_cs = []" by simp
    with None cd show ?thesis
      by (simp add: store_competitors_def competitors_of_def)
  next
    case (Some v)
    with cd show ?thesis
      by (simp add: store_competitors_def competitors_of_def update_conv')
  qed
qed

lemma py_get_store:
  "k \<noteq> ''competitors'' \<Longrightarrow> py_get (store_competitors cd s) k dflt = py_get cd k dflt"
  by (cases cd) (auto simp: store_competitors_def update_conv' split: option.splits)

text \<open>What the steps before the prompt leave: the sorted list in the payload, its first
  five in \<open>competitors\<close>.\<close>

lemma prepare_payload_stored:
  assumes "prepare_payload w cd = Inr prep"
  shows "\<exists>sorted_cs. sort_competitors w (competitors_of cd) = Inr sorted_cs
           \<and> py_get cd ''competitors'' (JArr []) = Inr (JArr (competitors_of cd))
           \<and> competitors prep = take 5 sorted_cs
           \<and> payload_after prep = store_competitors cd sorted_cs"
proof -
  from assms obtain cs sorted_cs where
    g: "py_get cd ''competitors'' (JArr []) = Inr (JArr cs)"
    and s: "sort_competitors w cs = Inr sorted_cs"
    and c: "competitors prep = take 5 sorted_cs"
    and p: "payload_after prep = store_competitors cd sorted_cs"
    by (auto simp: prepare_payload_def split: sum.splits json.splits)
  from g have cs: "competitors_of cd = cs" by (simp add: competitors_of_def)
  from g s c p cs show ?thesis by simp
qed

lemma prepare_payload_competitors:
  assumes "prepare_payload w cd = Inr prep"
    and "numeric_scores (competitors_of cd)"
  shows "competitors prep = take 5 (descending_by_similarity (competitors_of cd))"
    and "payload_after prep = store_competitors cd (descending_by_similarity (competitors_of cd))"
    and "competitors_of (payload_after prep) = descending_by_similarity (competitors_of cd)"
proof -
  from prepare_payload_stored[OF assms(1)] sort_competitors_numeric[OF assms(2), of w]
  have g: "py_get cd ''competitors'' (JArr []) = Inr (JArr (competitors_of cd))"
    and c: "competitors prep = take 5 (descending_by_similarity (competitors_of cd))"
    and p: "payload_after prep
              = store_competitors cd (descending_by_similarity (competitors_of cd))"
    by auto
  show "competitors prep = take 5 (descending_by_similarity (competitors_of cd))"
    by (rule c)
  show "payload_after prep = store_competitors cd (descending_by_similarity (competitors_of cd))"
    by (rule p)
  have "competitors_of cd = [] \<longrightarrow> descending_by_similarity (competitors_of cd) = []"
    by (simp add: descending_by_similarity_def)
  from competitors_of_store[OF g this] p
  show "competitors_of (payload_after prep) = descending_by_similarity (competitors_of cd)"
    by simp
qed






section \<open>The payloads in the result\<close>

text \<open>
  C8, as stated: the CoreSignal payload under \<open>raw_data\<close> is identical to the payload the
  fetch returned, its competitor list in the original order. For \<open>example.com\<close> the fetch
  returns the eight competitors as the provider listed them, and the result carries
  them reordered.
\<close>

theorem raw_payload_counterexample:
  "fst (fetch_coresignal_data sample_world sample_researcher Map.empty)
     = Inr sample_coresignal_payload
   \<and> competitors_of sample_coresignal_payload
     = [competitor ''c1'' 3, competitor ''c2'' 8, competitor ''c3'' 1, competitor ''c4'' 6,
        competitor ''c5'' 2, competitor ''c6'' 7, competitor ''c7'' 5, competitor ''c8'' 4]
   \<and> map_option (\<lambda>res. competitors_of (raw_coresignal_data res))
        (result_of (research_company sample_world (\<lambda>p. 0) sample_researcher Map.empty))
     = Some [competitor ''c2'' 8, competitor ''c6'' 7, competitor ''c4'' 6, competitor ''c7'' 5,
             competitor ''c8'' 4, competitor ''c1'' 3, competitor ''c5'' 2, competitor ''c3'' 1]"
  by code_simp

text \<open>
  C8, amended. In every research result the Apollo payload and the Tavily results under
  \<open>raw_data\<close> are what the fetches returned, and the CoreSignal payload under \<open>raw_data\<close>
  has every field other than \<open>competitors\<close> as fetched. When each fetched competitor
  carries a number as similarity score, or none (a missing or empty score counts as
  zero), the competitor list under \<open>raw_data\<close> has the fetched entries, as many as
  fetched, in the order the synthesizer's in-place sort leaves: descending similarity
  score.
\<close>

theorem raw_data_after_synthesis:
  assumes "returned (research_company w finished self fs) = Inr res"
  shows "\<exists>a t c. fst (fetch_apollo_data w self fs) = Inr a
               \<and> fst (fetch_tavily_data w self) = Inr t
               \<and> fst (fetch_coresignal_data w self fs) = Inr c
               \<and> raw_apollo_data res = a
               \<and> raw_tavily_customers res = t
               \<and> (\<forall>k dflt. k \<noteq> ''competitors''
                     \<longrightarrow> py_get (raw_coresignal_data res) k dflt = py_get c k dflt)
               \<and> (numeric_scores (competitors_of c)
                     \<longrightarrow> competitors_of (raw_coresignal_data res)
                           = descending_by_similarity (competitors_of c)
                       \<and> mset (competitors_of (raw_coresignal_data res))
                           = mset (competitors_of c)
                       \<and> length (competitors_of (raw_coresignal_data res))
                           = length (competitors_of c))"
proof -
  from research_company_returns[OF assms] obtain a t c self' md c' where
    f: "fst (fetch_apollo_data w self fs) = Inr a" "fst (fetch_tavily_data w self) = Inr t"
       "fst (fetch_coresignal_data w self fs) = Inr c"
    and g: "generate_llm_company_report w self' a c t
              = (Inr md, c', llm_calls (research_company w finished self fs))"
    and r: "res = \<lparr>result_company_name = company_name self', result_domain = domain self',
                   report = md, raw_apollo_data = a, raw_tavily_customers = t,
                   raw_coresignal_data = c'\<rparr>"
    by blast
  from g obtain prep where p: "prepare_payload w c = Inr prep" and c': "c' = payload_after prep"
    by (auto simp: generate_llm_company_report_def Let_def split: sum.splits)
  from prepare_payload_stored[OF p] obtain sorted_cs where
    st: "payload_after prep = store_competitors c sorted_cs"
    by blast
  from r c' have raw: "raw_coresignal_data res = payload_after prep" by simp
  have 1: "\<forall>k dflt. k \<noteq> ''competitors''
             \<longrightarrow> py_get (raw_coresignal_data res) k dflt = py_get c k dflt"
    by (simp add: raw st py_get_store)
  have 2: "numeric_scores (competitors_of c)
             \<longrightarrow> competitors_of (raw_coresignal_data res)
                   = descending_by_similarity (competitors_of c)
               \<and> mset (competitors_of (raw_coresignal_data res)) = mset (competitors_of c)
               \<and> length (competitors_of (raw_coresignal_data res)) = length (competitors_of c)"
  proof
    assume n: "numeric_scores (competitors_of c)"
    have o: "competitors_of (raw_coresignal_data res)
               = descending_by_similarity (competitors_of c)"
      by (simp add: raw prepare_payload_competitors(3)[OF p n])
    have m: "mset (competitors_of (raw_coresignal_data res)) = mset (competitors_of c)"
      by (simp add: o descending_by_similarity_mset)
    have l: "length (competitors_of (raw_coresignal_data res)) = length (competitors_of c)"
      using m by (rule mset_eq_length)
    from o m l
    show "competitors_of (raw_coresignal_data res) = descending_by_similarity (competitors_of c)
          \<and> mset (competitors_of (raw_coresignal_data res)) = mset (competitors_of c)
          \<and> length (competitors_of (raw_coresignal_data res)) = length (competitors_of c)"
      by simp
  qed
  from r have ra: "raw_apollo_data res = a" and rt: "raw_tavily_customers res = t"
    by simp_all
  from f(1) f(2) f(3) ra rt 1 2 show ?thesis by (intro exI conjI)
qed

text \<open>For \<open>example.com\<close>: the company name of the CoreSignal payload is as fetched, and
  the eight competitors, whose scores are numbers, are all there.\<close>

theorem raw_data_after_synthesis_witness:
  "numeric_scores (competitors_of sample_coresignal_payload)
   \<and> map_option (\<lambda>res. (raw_apollo_data res,
                      py_get (raw_coresignal_data res) ''company_name'' JNull,
                      length (competitors_of (raw_coresignal_data res))))
     (result_of (research_company sample_world (\<lambda>p. 0) sample_researcher Map.empty))
   = Some (sample_apollo_payload, Inr (JStr ''Example''), 8)"
proof -
  let ?run = "research_company sample_world (\<lambda>p. 0) sample_researcher Map.empty"
  have "\<not> isl (returned ?run)" by code_simp
  then obtain res where ret: "returned ?run = Inr res"
    by (cases "returned ?run") auto
  have fa: "fst (fetch_apollo_data sample_world sample_researcher Map.empty)
              = Inr sample_apollo_payload"
    by code_simp
  have fc: "fst (fetch_coresignal_data sample_world sample_researcher Map.empty)
              = Inr sample_coresignal_payload"
    by code_simp
  have n: "py_get sample_coresignal_payload ''company_name'' JNull = Inr (JStr ''Example'')"
    by code_simp
  have l: "length (competitors_of sample_coresignal_payload) = 8" by code_simp
  have ns: "numeric_scores (competitors_of sample_coresignal_payload)" by code_simp
  have k: "''company_name'' \<noteq> ''competitors''" by simp
  from raw_data_after_synthesis[OF ret] fa fc ns
  have "raw_apollo_data res = sample_apollo_payload"
    and "\<forall>k dflt. k \<noteq> ''competitors''
           \<longrightarrow> py_get (raw_coresignal_data res) k dflt = py_get sample_coresignal_payload k dflt"
    and "length (competitors_of (raw_coresignal_data res))
           = length (competitors_of sample_coresignal_payload)"
    by auto
  with n l k ret ns show ?thesis by (simp add: result_of_def)
qed

section \<open>Delivery\<close>

lemma md_pdf_differ: "md_path sv \<noteq> pdf_path sv"
proof
  assume "md_path sv = pdf_path sv"
  then have "(md_stem sv @ ''.m'') @ ''d'' = (pdf_stem sv @ ''.pd'') @ ''f''"
    by (simp add: md_path_def pdf_path_def)
  then have "''d'' = ''f''" by (rule same_length_suffix_eq) simp
  then show False by simp
qed

lemma succeeded_sink_failure [simp]: "\<not> succeeded (Some (sink_failure msg))"
  by (simp add: sink_failure_def)

lemma email_sent_value_sink_failure [simp]:
  "email_sent_value (Some (sink_failure msg)) = JBool False"
  by (simp add: email_sent_value_def sink_failure_def)

lemma truthy_sink_failure [simp]: "truthy (sink_failure msg)"
  by (simp add: sink_failure_def)

lemma send_pdf_report_cases:
  "send_pdf_report sv es to_email ex = JObj [(''success'', JBool True),
                                             (''message'', JStr (''Report sent to '' @ to_email))]
   \<or> (\<exists>msg. send_pdf_report sv es to_email ex = sink_failure msg)"
  by (auto simp: send_pdf_report_def split: option.splits)

text \<open>Every email result is a non-empty dict whose \<open>success\<close> is a boolean.\<close>

lemma email_stage_result:
  assumes "email_stage sv request files = Some r"
  shows "truthy r" and "email_sent_value (Some r) = JBool (succeeded (Some r))"
proof -
  from assms obtain to_email es where
    "r = send_pdf_report sv es to_email (pdf_path sv \<in> files) \<or> (\<exists>msg. r = sink_failure msg)"
    by (auto simp: email_stage_def split: option.splits if_splits sum.splits)
  with send_pdf_report_cases[of sv es to_email "pdf_path sv \<in> files"]
  have c: "r = JObj [(''success'', JBool True), (''message'', JStr (''Report sent to '' @ to_email))]
           \<or> (\<exists>msg. r = sink_failure msg)"
    by auto
  from c show "truthy r" by auto
  from c show "email_sent_value (Some r) = JBool (succeeded (Some r))"
    by (auto simp: email_sent_value_def sink_failure_def)
qed

lemma email_sent_value_stage:
  "email_sent_value (email_stage sv request files)
     = JBool (succeeded (email_stage sv request files))"
proof (cases "email_stage sv request files")
  case None
  then show ?thesis by (simp add: email_sent_value_def)
next
  case (Some r)
  with email_stage_result(2)[OF Some] show ?thesis by simp
qed

lemma email_stage_attempted:
  "truthy_str (email request) \<Longrightarrow> EMAIL_SERVICE_AVAILABLE sv
   \<Longrightarrow> email_stage sv request files \<noteq> None"
  by (cases "email request") (auto simp: email_stage_def split: sum.splits)

lemma email_stage_not_requested:
  "\<not> truthy_str (email request) \<Longrightarrow> email_stage sv request files = None"
  by (cases "email request") (auto simp: email_stage_def)

text \<open>The JSON summary of the multi-source handler for a request with an email address.\<close>

lemma multi_source_response_email:
  assumes "truthy_str (email request)" and "succeeded drive_result"
    and "er = email_stage sv request files0"
  shows "\<exists>body. fst (multi_source_response sv request res name drive_result er files)
                  = JSONResponse (JObj body)
               \<and> map_of body ''google_drive'' = drive_result
               \<and> map_of body ''email_sent'' = Some (JBool (succeeded er))
               \<and> (er \<noteq> None \<longrightarrow> map_of body ''email_result'' = er)"
proof -
  from assms(2) obtain d where d: "drive_result = Some d" "truthy d"
    by (cases drive_result) auto
  show ?thesis
  proof (cases er)
    case None
    with assms(1) d show ?thesis
      by (simp add: multi_source_response_def email_sent_value_def)
  next
    case (Some r)
    with assms(3) have "email_stage sv request files0 = Some r" by simp
    from email_stage_result[OF this] Some assms(1) d show ?thesis
      by (simp add: multi_source_response_def)
  qed
qed

text \<open>A handled request whose response is no error went through the delivery steps.\<close>

lemma is_error_responses [simp]:
  "is_error (research_error e)" "is_error (generate_error e)" "is_error pandoc_error"
  by (simp_all add: research_error_def generate_error_def pandoc_error_def)

lemma failed_request_fields [simp]:
  "response (failed_request r files fs) = r"
  "drive_outcome (failed_request r files fs) = None"
  "email_outcome (failed_request r files fs) = None"
  by (simp_all add: failed_request_def)

lemma multi_source_endpoint_cases:
  "(\<exists>e files1 cache. multi_source_research_endpoint w sv finished request fs files
                        = failed_request (research_error e) files1 cache)
   \<or> (\<exists>files1 cache. multi_source_research_endpoint w sv finished request fs files
                        = failed_request pandoc_error files1 cache)
   \<or> (\<exists>res name cache. multi_source_research_endpoint w sv finished request fs files
                        = multi_source_delivery sv request res name
                            (insert (pdf_path sv) (insert (md_path sv) files) - {md_path sv})
                            cache)"
proof (cases "MultiSourceResearcher_init w (request_domain request)")
  case (Inl e)
  then have "multi_source_research_endpoint w sv finished request fs files
               = failed_request (research_error e) files fs"
    by (simp add: multi_source_research_endpoint_def)
  then show ?thesis by blast
next
  case r: (Inr r)
  show ?thesis
  proof (cases "returned (research_company w finished r fs)")
    case (Inl e)
    with r have "multi_source_research_endpoint w sv finished request fs files
                   = failed_request (research_error e) files
                       (files_after (research_company w finished r fs))"
      by (simp add: multi_source_research_endpoint_def Let_def)
    then show ?thesis by blast
  next
    case res: (Inr res)
    show ?thesis
    proof (cases "safe_company_name w (result_company_name res)")
      case (Inl e)
      with r res have "multi_source_research_endpoint w sv finished request fs files
                         = failed_request (research_error e) (insert (md_path sv) files)
                             (files_after (research_company w finished r fs))"
        by (simp add: multi_source_research_endpoint_def Let_def)
      then show ?thesis by blast
    next
      case n: (Inr safe_name)
      show ?thesis
      proof (cases "pandoc sv (report res)")
        case e: (Some e)
        show ?thesis
        proof (cases "exc_class_of e = CalledProcessError")
          case True
          with r res n e have "multi_source_research_endpoint w sv finished request fs files
                  = failed_request pandoc_error
                      (insert (pdf_path sv) (insert (md_path sv) files))
                      (files_after (research_company w finished r fs))"
            by (simp add: multi_source_research_endpoint_def Let_def)
          then show ?thesis by blast
        next
          case False
          with r res n e have "multi_source_research_endpoint w sv finished request fs files
                  = failed_request (research_error e)
                      (insert (pdf_path sv) (insert (md_path sv) files))
                      (files_after (research_company w finished r fs))"
            by (simp add: multi_source_research_endpoint_def Let_def)
          then show ?thesis by blast
        qed
      next
        case None
        with r res n
        have "multi_source_research_endpoint w sv finished request fs files
                = multi_source_delivery sv request res
                    (safe_name @ ''_multi_source_report_'' @ timestamp_now sv @ ''.pdf'')
                    (insert (pdf_path sv) (insert (md_path sv) files) - {md_path sv})
                    (files_after (research_company w finished r fs))"
          by (simp add: multi_source_research_endpoint_def Let_def)
        then show ?thesis by blast
      qed
    qed
  qed
qed

lemma multi_source_delivered:
  assumes h: "h = multi_source_research_endpoint w sv finished request fs files"
    and ok: "\<not> is_error (response h) \<or> drive_outcome h \<noteq> None"
  shows "\<exists>res name files3 cache.
           pdf_path sv \<in> files3 \<and> h = multi_source_delivery sv request res name files3 cache"
proof -
  have p: "pdf_path sv \<in> insert (pdf_path sv) (insert (md_path sv) files) - {md_path sv}"
    using md_pdf_differ[of sv] by auto
  from multi_source_endpoint_cases[of w sv finished request fs files] show ?thesis
  proof (elim disjE exE)
    fix e files1 cache
    assume "multi_source_research_endpoint w sv finished request fs files
              = failed_request (research_error e) files1 cache"
    with h have "h = failed_request (research_error e) files1 cache" by (rule trans)
    then have "is_error (response h)" "drive_outcome h = None"
      by (simp_all only: failed_request_fields is_error_responses)
    with ok show ?thesis by blast
  next
    fix files1 cache
    assume "multi_source_research_endpoint w sv finished request fs files
              = failed_request pandoc_error files1 cache"
    with h have "h = failed_request pandoc_error files1 cache" by (rule trans)
    then have "is_error (response h)" "drive_outcome h = None"
      by (simp_all only: failed_request_fields is_error_responses)
    with ok show ?thesis by blast
  next
    fix res name cache
    assume "multi_source_research_endpoint w sv finished request fs files
              = multi_source_delivery sv request res name
                  (insert (pdf_path sv) (insert (md_path sv) files) - {md_path sv}) cache"
    with h have "h = multi_source_delivery sv request res name
                  (insert (pdf_path sv) (insert (md_path sv) files) - {md_path sv}) cache"
      by (rule trans)
    from conjI[OF p this] show ?thesis by (intro exI)
  qed
qed

lemma multi_source_delivery_fields:
  assumes "h = multi_source_delivery sv request res name files3 cache"
  shows "email_outcome h = email_stage sv request files3"
    and "response h = fst (multi_source_response sv request res name
                             (drive_outcome h) (email_outcome h) files3)"
    and "local_files h = snd (multi_source_response sv request res name
                                (drive_outcome h) (email_outcome h) files3)"
    and "drive_outcome h
           = drive_stage sv ''Google Drive upload folder ID is not set'' request name"
  using assms by (simp_all add: multi_source_delivery_def Let_def split: prod.splits)

lemma coresignal_delivery_fields:
  assumes "h = coresignal_delivery sv request cname name files3 cache"
  shows "email_outcome h = email_stage sv request files3"
    and "response h = fst (coresignal_response sv request cname name
                             (drive_outcome h) (email_outcome h) files3)"
    and "local_files h = snd (coresignal_response sv request cname name
                                (drive_outcome h) (email_outcome h) files3)"
    and "drive_outcome h
           = drive_stage sv
               ''Google Drive folder ID is required for upload. Please provide upload_to_drive_folder_id.''
               request name"
  using assms by (simp_all add: coresignal_delivery_def Let_def split: prod.splits)

text \<open>The handler on a request whose research, file name and rendering go through.\<close>

lemma multi_source_endpoint_reaches_delivery:
  assumes "MultiSourceResearcher_init w (request_domain request) = Inr r"
    and "returned (research_company w finished r fs) = Inr res"
    and "safe_company_name w (result_company_name res) = Inr safe_name"
    and "pandoc sv (report res) = None"
  shows "multi_source_research_endpoint w sv finished request fs files
           = multi_source_delivery sv request res
               (safe_name @ ''_multi_source_report_'' @ timestamp_now sv @ ''.pdf'')
               (insert (pdf_path sv) (insert (md_path sv) files) - {md_path sv})
               (files_after (research_company w finished r fs))"
  using assms by (simp add: multi_source_research_endpoint_def Let_def)

lemma coresignal_endpoint_reaches_delivery:
  assumes "CoreSignalMultiSourceAPI_init w
             (if startswith (request_website request) ''http://''
                 \<or> startswith (request_website request) ''https://''
              then request_website request else ''https://'' @ request_website request)
           = Inr client"
    and "fst (company_multi_source_enrich w client fs) = Inr api_response"
    and "fst (generate_markdown_report_with_llm w client api_response) = Inr markdown_report"
    and "py_get (fst (snd (generate_markdown_report_with_llm w client api_response)))
           ''company_name'' (JStr ''Unknown_Company'') = Inr cname"
    and "safe_company_name w cname = Inr safe_name"
    and "pandoc sv markdown_report = None"
  shows "coresignal_generate_pdf_report w sv request fs files
           = coresignal_delivery sv request cname
               (safe_name @ ''_coresignal_report_'' @ timestamp_now sv @ ''.pdf'')
               (insert (pdf_path sv) (insert (md_path sv) files) - {md_path sv})
               (fst (snd (company_multi_source_enrich w client fs)))"
proof -
  obtain ra fs1 calls where f: "company_multi_source_enrich w client fs = (ra, fs1, calls)"
    by (cases "company_multi_source_enrich w client fs") auto
  obtain rm after prompts where
    g: "generate_markdown_report_with_llm w client api_response = (rm, after, prompts)"
    by (cases "generate_markdown_report_with_llm w client api_response") auto
  from assms f g show ?thesis
    by (simp add: coresignal_generate_pdf_report_def Let_def)
qed

text \<open>The sample request, up to delivery.\<close>

lemma sample_request_delivery:
  assumes "request_domain request = ''example.com''"
  shows "\<exists>cache.
           multi_source_research_endpoint sample_world sample_services (\<lambda>p. 0) request Map.empty {}
             = multi_source_delivery sample_services request sample_result
                 ''Example_Inc_multi_source_report_20240101_120000.pdf''
                 (insert (pdf_path sample_services) (insert (md_path sample_services) {})
                    - {md_path sample_services})
                 cache"
proof -
  have i: "MultiSourceResearcher_init sample_world (request_domain request) = Inr sample_researcher"
    unfolding assms by code_simp
  have r: "returned (research_company sample_world (\<lambda>p. 0) sample_researcher Map.empty)
             = Inr sample_result"
    by code_simp
  have n: "safe_company_name sample_world (result_company_name sample_result)
             = Inr ''Example_Inc''"
    by code_simp
  have p: "pandoc sample_services (report sample_result) = None"
    by (simp add: sample_services_def)
  have t: "''Example_Inc'' @ ''_multi_source_report_'' @ timestamp_now sample_services @ ''.pdf''
             = ''Example_Inc_multi_source_report_20240101_120000.pdf''"
    by (simp add: sample_services_def)
  from multi_source_endpoint_reaches_delivery[OF i r n p, of "{}"]
  show ?thesis
    unfolding t by (intro exI)
qed

text \<open>
  C3. For every multi-source research request with an email address, whose upload to the
  drive succeeded, the response is a JSON summary, never the file; the summary holds
  the drive upload result under \<open>google_drive\<close> and the outcome of the email under
  \<open>email_sent\<close>, with the result of the send under \<open>email_result\<close> (there is one whenever
  the email module is available).
\<close>

theorem email_and_upload_response:
  assumes h: "h = multi_source_research_endpoint w sv finished request fs files"
    and address: "truthy_str (email request)"
    and upload: "succeeded (drive_outcome h)"
  shows "\<exists>body. response h = JSONResponse (JObj body)
               \<and> map_of body ''google_drive'' = drive_outcome h
               \<and> map_of body ''email_sent'' = Some (JBool (succeeded (email_outcome h)))
               \<and> (email_outcome h \<noteq> None \<longrightarrow> map_of body ''email_result'' = email_outcome h)
               \<and> (EMAIL_SERVICE_AVAILABLE sv \<longrightarrow> email_outcome h \<noteq> None)"
proof -
  from upload have "drive_outcome h \<noteq> None" by (cases "drive_outcome h") auto
  then have "\<not> is_error (response h) \<or> drive_outcome h \<noteq> None" by simp
  from multi_source_delivered[OF h this] obtain res name files3 cache where
    d: "h = multi_source_delivery sv request res name files3 cache"
    by (elim exE conjE)
  note e = multi_source_delivery_fields(1)[OF d] and r = multi_source_delivery_fields(2)[OF d]
  from multi_source_response_email[OF address upload e, of res name files3]
  obtain body where
    b: "fst (multi_source_response sv request res name (drive_outcome h) (email_outcome h) files3)
          = JSONResponse (JObj body)"
       "map_of body ''google_drive'' = drive_outcome h"
       "map_of body ''email_sent'' = Some (JBool (succeeded (email_outcome h)))"
       "email_outcome h \<noteq> None \<longrightarrow> map_of body ''email_result'' = email_outcome h"
    by (elim exE conjE)
  from r b(1) have resp: "response h = JSONResponse (JObj body)" by (rule trans)
  have "EMAIL_SERVICE_AVAILABLE sv \<longrightarrow> email_outcome h \<noteq> None"
    using email_stage_attempted[OF address, of sv files3] by (simp add: e)
  with resp b(2,3,4) show ?thesis by (intro exI conjI)
qed

text \<open>The request for \<open>example.com\<close> with an address and a drive folder: the summary holds
  the uploaded file and the sent email.\<close>

theorem email_and_upload_response_witness:
  "truthy_str (email email_and_upload_request)
   \<and> (\<exists>body. response (multi_source_research_endpoint sample_world sample_services (\<lambda>p. 0)
                         email_and_upload_request Map.empty {})
               = JSONResponse (JObj body)
           \<and> map_of body ''google_drive''
               = Some (JObj [(''success'', JBool True), (''file_id'', JStr ''file-1''),
                             (''file_name'', JStr ''report.pdf''),
                             (''view_link'', JStr ''https://drive.example/file-1''),
                             (''size'', JStr ''2048'')])
           \<and> map_of body ''email_sent'' = Some (JBool True)
           \<and> map_of body ''email_result''
               = Some (JObj [(''success'', JBool True),
                             (''message'', JStr ''Report sent to reader@example.org'')]))"
proof -
  let ?h = "multi_source_research_endpoint sample_world sample_services (\<lambda>p. 0)
              email_and_upload_request Map.empty {}"
  have a: "truthy_str (email email_and_upload_request)"
    by (simp add: email_and_upload_request_def)
  have "request_domain email_and_upload_request = ''example.com''"
    by (simp add: email_and_upload_request_def)
  from sample_request_delivery[OF this] obtain cache where
    h: "?h = multi_source_delivery sample_services email_and_upload_request sample_result
               ''Example_Inc_multi_source_report_20240101_120000.pdf''
               (insert (pdf_path sample_services) (insert (md_path sample_services) {})
                  - {md_path sample_services})
               cache"
    by (elim exE)
  note f = multi_source_delivery_fields[OF h]
  have d: "drive_outcome ?h
             = Some (JObj [(''success'', JBool True), (''file_id'', JStr ''file-1''),
                           (''file_name'', JStr ''report.pdf''),
                           (''view_link'', JStr ''https://drive.example/file-1''),
                           (''size'', JStr ''2048'')])"
    unfolding f(4)
    by (simp add: drive_stage_def email_and_upload_request_def sample_services_def
                  sample_upload_result_def uploaded_def)
  have e: "email_outcome ?h
             = Some (JObj [(''success'', JBool True),
                           (''message'', JStr ''Report sent to reader@example.org'')])"
    unfolding f(1)
    by (simp add: email_stage_def email_and_upload_request_def sample_services_def
                  is_configured_def send_pdf_report_def)
  have u: "succeeded (drive_outcome ?h)" unfolding d by simp
  have s: "succeeded (email_outcome ?h)" unfolding e by simp
  from email_and_upload_response[OF refl a u] obtain body where
    b: "response ?h = JSONResponse (JObj body)"
       "map_of body ''google_drive'' = drive_outcome ?h"
       "map_of body ''email_sent'' = Some (JBool (succeeded (email_outcome ?h)))"
       "email_outcome ?h \<noteq> None \<longrightarrow> map_of body ''email_result'' = email_outcome ?h"
    by (elim exE conjE)
  have 1: "map_of body ''google_drive''
             = Some (JObj [(''success'', JBool True), (''file_id'', JStr ''file-1''),
                           (''file_name'', JStr ''report.pdf''),
                           (''view_link'', JStr ''https://drive.example/file-1''),
                           (''size'', JStr ''2048'')])"
    using b(2) d by (rule trans)
  have 2: "map_of body ''email_sent'' = Some (JBool True)"
    using b(3) s by simp
  have "email_outcome ?h \<noteq> None" unfolding e by simp
  with b(4) have "map_of body ''email_result'' = email_outcome ?h" by (rule mp)
  then have 3: "map_of body ''email_result''
                  = Some (JObj [(''success'', JBool True),
                                (''message'', JStr ''Report sent to reader@example.org'')])"
    using e by (rule trans)
  from b(1) 1 2 3 have "\<exists>body. response ?h = JSONResponse (JObj body)
           \<and> map_of body ''google_drive''
               = Some (JObj [(''success'', JBool True), (''file_id'', JStr ''file-1''),
                             (''file_name'', JStr ''report.pdf''),
                             (''view_link'', JStr ''https://drive.example/file-1''),
                             (''size'', JStr ''2048'')])
           \<and> map_of body ''email_sent'' = Some (JBool True)
           \<and> map_of body ''email_result''
               = Some (JObj [(''success'', JBool True),
                             (''message'', JStr ''Report sent to reader@example.org'')])"
    by (intro exI conjI)
  with a show ?thesis by (rule conjI)
qed

text \<open>The same handler in the world of the katakana name, up to delivery.\<close>

lemma katakana_request_delivery:
  "\<exists>cache.
     multi_source_research_endpoint katakana_world sample_services (\<lambda>p. 0) download_request
         Map.empty {}
       = multi_source_delivery sample_services download_request katakana_result
           (katakana_name @ ''_multi_source_report_20240101_120000.pdf'')
           (insert (pdf_path sample_services) (insert (md_path sample_services) {})
              - {md_path sample_services})
           cache"
proof -
  have i: "MultiSourceResearcher_init katakana_world (request_domain download_request)
             = Inr sample_researcher"
    by code_simp
  have r: "returned (research_company katakana_world (\<lambda>p. 0) sample_researcher Map.empty)
             = Inr katakana_result"
    by code_simp
  have n: "safe_company_name katakana_world (result_company_name katakana_result)
             = Inr katakana_name"
    by code_simp
  have p: "pandoc sample_services (report katakana_result) = None"
    by (simp add: sample_services_def)
  have t: "katakana_name @ ''_multi_source_report_'' @ timestamp_now sample_services @ ''.pdf''
             = katakana_name @ ''_multi_source_report_20240101_120000.pdf''"
    by (simp add: sample_services_def)
  from multi_source_endpoint_reaches_delivery[OF i r n p, of "{}"] show ?thesis
    unfolding t by (intro exI)
qed

lemma katakana_coresignal_delivery:
  "\<exists>cache.
     coresignal_generate_pdf_report katakana_world sample_services coresignal_download_request
         Map.empty {}
       = coresignal_delivery sample_services coresignal_download_request (JStr katakana_name)
           (katakana_name @ ''_coresignal_report_20240101_120000.pdf'')
           (insert (pdf_path sample_services) (insert (md_path sample_services) {})
              - {md_path sample_services})
           cache"
proof -
  have i: "CoreSignalMultiSourceAPI_init katakana_world
             (if startswith (request_website coresignal_download_request) ''http://''
                 \<or> startswith (request_website coresignal_download_request) ''https://''
              then request_website coresignal_download_request
              else ''https://'' @ request_website coresignal_download_request)
           = Inr sample_client"
    by code_simp
  have f: "fst (company_multi_source_enrich katakana_world sample_client Map.empty)
             = Inr (JObj [(''company_name'', JStr katakana_name)])"
    by code_simp
  have g: "fst (generate_markdown_report_with_llm katakana_world sample_client
                  (JObj [(''company_name'', JStr katakana_name)])) = Inr ''# Report''"
    by code_simp
  have c: "py_get (fst (snd (generate_markdown_report_with_llm katakana_world sample_client
                      (JObj [(''company_name'', JStr katakana_name)]))))
             ''company_name'' (JStr ''Unknown_Company'') = Inr (JStr katakana_name)"
    by code_simp
  have n: "safe_company_name katakana_world (JStr katakana_name) = Inr katakana_name"
    by code_simp
  have p: "pandoc sample_services ''# Report'' = None"
    by (simp add: sample_services_def)
  have t: "katakana_name @ ''_coresignal_report_'' @ timestamp_now sample_services @ ''.pdf''
             = katakana_name @ ''_coresignal_report_20240101_120000.pdf''"
    by (simp add: sample_services_def)
  from coresignal_endpoint_reaches_delivery[OF i f g c n p, of "{}"] show ?thesis
    unfolding t by (intro exI)
qed

text \<open>A header value that holds the katakana name cannot be encoded as Latin-1.\<close>

lemma katakana_not_latin1: "\<not> latin1_encodable (a @ katakana_name @ b)"
  by (simp add: latin1_encodable_def katakana_name_def)

lemma katakana_download_refused:
  "new_FileResponse path (katakana_name @ b) (download_headers (katakana_name @ b) None)
     = Inl (PyErr UnicodeEncodeError [])"
  using katakana_not_latin1[of "''attachment; filename=''" b]
  by (simp add: new_FileResponse_def download_headers_def)

text \<open>
  C5. For every delivery the rendered PDF should be deleted from local storage exactly
  when it has been handed to a sink, and when no email address was supplied and no
  upload succeeded, the response should stream the PDF file, which is still there. The
  handlers put the sanitised company name into the \<open>Content-Disposition\<close> header of the
  download, and the sanitiser keeps every letter, also those that a header cannot carry.
  For a request with no address and no upload, about a company that the providers know
  under a katakana name, each of the two handlers renders the PDF, raises
  \<open>UnicodeEncodeError\<close> while it builds the download response, and answers with status
  500: nothing is streamed, nothing was handed to a sink, and the PDF is left in local
  storage. The same request about a company named \<open>Example Inc\<close> is answered with the
  file.
\<close>

theorem katakana_name_download_fails:
  "response (multi_source_research_endpoint katakana_world sample_services (\<lambda>p. 0)
               download_request Map.empty {})
     = HTTPException 500 ''Error in multi-source research: ''
   \<and> pdf_path sample_services
       \<in> local_files (multi_source_research_endpoint katakana_world sample_services (\<lambda>p. 0)
                        download_request Map.empty {})
   \<and> email_outcome (multi_source_research_endpoint katakana_world sample_services (\<lambda>p. 0)
                      download_request Map.empty {}) = None
   \<and> drive_outcome (multi_source_research_endpoint katakana_world sample_services (\<lambda>p. 0)
                      download_request Map.empty {}) = None
   \<and> response (coresignal_generate_pdf_report katakana_world sample_services
                 coresignal_download_request Map.empty {})
     = HTTPException 500 ''Error generating PDF report: ''
   \<and> pdf_path sample_services
       \<in> local_files (coresignal_generate_pdf_report katakana_world sample_services
                        coresignal_download_request Map.empty {})
   \<and> email_outcome (coresignal_generate_pdf_report katakana_world sample_services
                      coresignal_download_request Map.empty {}) = None
   \<and> drive_outcome (coresignal_generate_pdf_report katakana_world sample_services
                      coresignal_download_request Map.empty {}) = None
   \<and> response (multi_source_research_endpoint sample_world sample_services (\<lambda>p. 0)
                 download_request Map.empty {})
     = FileResponse (pdf_path sample_services)
         ''Example_Inc_multi_source_report_20240101_120000.pdf''
         [(''Content-Disposition'',
           JStr ''attachment; filename=Example_Inc_multi_source_report_20240101_120000.pdf'')]
   \<and> pdf_path sample_services
       \<in> local_files (multi_source_research_endpoint sample_world sample_services (\<lambda>p. 0)
                        download_request Map.empty {})"
proof -
  let ?h = "multi_source_research_endpoint katakana_world sample_services (\<lambda>p. 0)
              download_request Map.empty {}"
  let ?g = "multi_source_research_endpoint sample_world sample_services (\<lambda>p. 0)
              download_request Map.empty {}"
  let ?files3 = "insert (pdf_path sample_services) (insert (md_path sample_services) {})
                   - {md_path sample_services}"
  have pdf: "pdf_path sample_services \<in> ?files3"
    using md_pdf_differ[of sample_services] by simp
  have a: "\<not> truthy_str (email download_request)" by (simp add: download_request_def)
  from katakana_request_delivery obtain cache where
    h: "?h = multi_source_delivery sample_services download_request katakana_result
               (katakana_name @ ''_multi_source_report_20240101_120000.pdf'') ?files3 cache"
    by (elim exE)
  note f = multi_source_delivery_fields[OF h]
  have e: "email_outcome ?h = None"
    unfolding f(1) using a by (rule email_stage_not_requested)
  have d: "drive_outcome ?h = None"
    unfolding f(4) by (simp add: drive_stage_def download_request_def)
  have r: "response ?h = HTTPException 500 ''Error in multi-source research: ''"
    unfolding f(2) e d using a
    by (simp add: multi_source_response_def katakana_download_refused research_error_def)
  have l: "local_files ?h = ?files3"
    unfolding f(3) e d using a
    by (simp add: multi_source_response_def katakana_download_refused)
  have "request_domain download_request = ''example.com''"
    by (simp add: download_request_def)
  from sample_request_delivery[OF this] obtain cache' where
    g: "?g = multi_source_delivery sample_services download_request sample_result
               ''Example_Inc_multi_source_report_20240101_120000.pdf'' ?files3 cache'"
    by (elim exE)
  note f' = multi_source_delivery_fields[OF g]
  have e': "email_outcome ?g = None"
    unfolding f'(1) using a by (rule email_stage_not_requested)
  have d': "drive_outcome ?g = None"
    unfolding f'(4) by (simp add: drive_stage_def download_request_def)
  have ok: "new_FileResponse (pdf_path sample_services)
              ''Example_Inc_multi_source_report_20240101_120000.pdf''
              (download_headers ''Example_Inc_multi_source_report_20240101_120000.pdf'' None)
            = Inr (FileResponse (pdf_path sample_services)
                ''Example_Inc_multi_source_report_20240101_120000.pdf''
                [(''Content-Disposition'',
                  JStr ''attachment; filename=Example_Inc_multi_source_report_20240101_120000.pdf'')])"
    by (simp add: new_FileResponse_def download_headers_def latin1_encodable_def)
  have r': "response ?g
              = FileResponse (pdf_path sample_services)
                  ''Example_Inc_multi_source_report_20240101_120000.pdf''
                  [(''Content-Disposition'',
                    JStr ''attachment; filename=Example_Inc_multi_source_report_20240101_120000.pdf'')]"
    unfolding f'(2) e' d' using a by (simp add: multi_source_response_def ok)
  have l': "local_files ?g = ?files3"
    unfolding f'(3) e' d' using a by (simp add: multi_source_response_def ok)
  let ?k = "coresignal_generate_pdf_report katakana_world sample_services
              coresignal_download_request Map.empty {}"
  have b: "\<not> truthy_str (email coresignal_download_request)"
    by (simp add: coresignal_download_request_def)
  from katakana_coresignal_delivery obtain cache'' where
    k: "?k = coresignal_delivery sample_services coresignal_download_request
               (JStr katakana_name) (katakana_name @ ''_coresignal_report_20240101_120000.pdf'')
               ?files3 cache''"
    by (elim exE)
  note f'' = coresignal_delivery_fields[OF k]
  have e'': "email_outcome ?k = None"
    unfolding f''(1) using b by (rule email_stage_not_requested)
  have d'': "drive_outcome ?k = None"
    unfolding f''(4) by (simp add: drive_stage_def coresignal_download_request_def)
  have r'': "response ?k = HTTPException 500 ''Error generating PDF report: ''"
    unfolding f''(2) e'' d'' using b
    by (simp add: coresignal_response_def katakana_download_refused generate_error_def)
  have l'': "local_files ?k = ?files3"
    unfolding f''(3) e'' d'' using b
    by (simp add: coresignal_response_def katakana_download_refused)
  from r l e d r'' l'' e'' d'' r' l' pdf show ?thesis by (simp only: simp_thms)
qed

end
